theory Spec2Isabelle
  imports Main "HOL-Library.Word"
begin

section \<open>The tool-invocation renderer of \<open>src/components/ui/tool.tsx\<close>\<close>

text \<open>
  The file holds one pure helper, \<open>capitalizeAndReplaceUnderscores\<close>, and one React
  function component, \<open>ToolInvocations\<close>. The component is embedded as a function from
  its props to the element tree it returns, or to the exception it throws. A callback
  acts on a host state of type \<open>'s\<close>.
\<close>

subsection \<open>JavaScript strings\<close>

text \<open>
  A JavaScript string is a sequence of UTF-16 code units. The string literals of the
  source are ASCII; \<open>lit\<close> gives the code units of one.
\<close>

type_synonym code_unit = "16 word"

type_synonym jsstring = "code_unit list"

definition ascii :: "char \<Rightarrow> code_unit" where
  "ascii c = of_char c"

definition lit :: "string \<Rightarrow> jsstring" where
  "lit s = map ascii s"

text \<open>
  The code points of a string: a high surrogate followed by a low surrogate is one code
  point above \<open>0xFFFF\<close>, every other code unit (also a lone surrogate) is the code point
  of its own value. \<open>codeUnits\<close> is the UTF-16 encoding of one code point.
\<close>

definition isHighSurrogate :: "code_unit \<Rightarrow> bool" where
  "isHighSurrogate c \<longleftrightarrow> 0xD800 \<le> c \<and> c \<le> 0xDBFF"

definition isLowSurrogate :: "code_unit \<Rightarrow> bool" where
  "isLowSurrogate c \<longleftrightarrow> 0xDC00 \<le> c \<and> c \<le> 0xDFFF"

fun codePoints :: "jsstring \<Rightarrow> nat list" where
  "codePoints [] = []"
| "codePoints [c] = [unat c]"
| "codePoints (c # d # cs) =
     (if isHighSurrogate c \<and> isLowSurrogate d
      then (0x10000 + (unat c - 0xD800) * 0x400 + (unat d - 0xDC00)) # codePoints cs
      else unat c # codePoints (d # cs))"

definition codeUnits :: "nat \<Rightarrow> jsstring" where
  "codeUnits cp =
     (if cp < 0x10000 then [of_nat cp]
      else [of_nat (0xD800 + (cp - 0x10000) div 0x400),
            of_nat (0xDC00 + (cp - 0x10000) mod 0x400)])"

text \<open>
  \<open>String.prototype.toUpperCase\<close> maps every code point of the string through the
  upper-case mapping of the Unicode character database (one code point to one or more
  code points, as sharp s to \<open>SS\<close>) and encodes the result. The database belongs to the
  JavaScript engine, not to this repository: the mapping is the parameter \<open>up\<close>.
\<close>

definition toUpperCase :: "(nat \<Rightarrow> nat list) \<Rightarrow> jsstring \<Rightarrow> jsstring" where
  "toUpperCase up s = concat (map codeUnits (concat (map up (codePoints s))))"

text \<open>
  \<open>str.replaceAll(pat, rep)\<close> for a pattern of one code unit: every occurrence of the
  pattern is replaced, left to right.
\<close>

definition replaceAll :: "code_unit \<Rightarrow> jsstring \<Rightarrow> jsstring \<Rightarrow> jsstring" where
  "replaceAll pat rep s = concat (map (\<lambda>c. if c = pat then rep else [c]) s)"

text \<open>
  The regular expression \<open>/^./\<close> (no flags): \<open>^\<close> anchors at the start of the input and,
  without the flag \<open>u\<close>, \<open>.\<close> matches one code unit that is not a line terminator (line
  feed, carriage return, line separator, paragraph separator). \<open>str.replace(/^./, f)\<close>
  replaces that single match, when there is one, by \<open>f(match)\<close>.
\<close>

definition isLineTerminator :: "code_unit \<Rightarrow> bool" where
  "isLineTerminator c \<longleftrightarrow> c = 0x0A \<or> c = 0x0D \<or> c = 0x2028 \<or> c = 0x2029"

fun replace_caret_dot :: "(jsstring \<Rightarrow> jsstring) \<Rightarrow> jsstring \<Rightarrow> jsstring" where
  "replace_caret_dot f [] = []"
| "replace_caret_dot f (c # cs) = (if isLineTerminator c then c # cs else f [c] @ cs)"

definition capitalizeAndReplaceUnderscores :: "(nat \<Rightarrow> nat list) \<Rightarrow> jsstring \<Rightarrow> jsstring" where
  "capitalizeAndReplaceUnderscores up str =
     replace_caret_dot (\<lambda>match. toUpperCase up match)
       (replaceAll (ascii CHR ''_'') (lit '' '') str)"

subsection \<open>Exceptions\<close>

datatype error = TypeError

text \<open>\<open>Array.prototype.map\<close> with a callback that can throw: the first exception ends it.\<close>

fun map_throwing :: "('a \<Rightarrow> error + 'b) \<Rightarrow> 'a list \<Rightarrow> error + 'b list" where
  "map_throwing f [] = Inr []"
| "map_throwing f (x # xs) =
     (case f x of
        Inl e \<Rightarrow> Inl e
      | Inr y \<Rightarrow> (case map_throwing f xs of Inl e \<Rightarrow> Inl e | Inr ys \<Rightarrow> Inr (y # ys)))"

subsection \<open>Values, and the global \<open>String\<close> function\<close>

text \<open>
  A parameter value has the TypeScript type \<open>any\<close>. It is modelled as a JSON-like value:
  \<open>undefined\<close>, \<open>null\<close>, a boolean, a number, a string, an array, or a plain object given by
  its own properties, none of which is a function. The numbers are an abstract type
  \<open>'n\<close>, and the engine's conversion of a number to a string is a parameter \<open>num\<close>.

  \<open>String(v)\<close> gives the name of \<open>undefined\<close>, \<open>null\<close> and the booleans and a string as it
  is. An array is converted by \<open>Array.prototype.join\<close>: its elements, converted in turn
  and joined by commas, with \<open>undefined\<close> and \<open>null\<close> elements empty. A plain object is
  converted by its \<open>toString\<close>, then its \<open>valueOf\<close>: without an own property \<open>toString\<close>
  the inherited one gives \<open>[object Object]\<close>; an own property \<open>toString\<close> is not callable
  here, the inherited or own \<open>valueOf\<close> gives no primitive, and the conversion throws a
  \<open>TypeError\<close>.
\<close>

datatype 'n jsval =
    JUndefined
  | JNull
  | JBool bool
  | JNum 'n
  | JStr jsstring
  | JArr "'n jsval list"
  | JObj "(jsstring \<times> 'n jsval) list"

fun join :: "jsstring \<Rightarrow> jsstring list \<Rightarrow> jsstring" where
  "join sep [] = []"
| "join sep [x] = x"
| "join sep (x # y # ys) = x @ sep @ join sep (y # ys)"

fun JS_String :: "('n \<Rightarrow> jsstring) \<Rightarrow> 'n jsval \<Rightarrow> error + jsstring"
  and JS_String_elements :: "('n \<Rightarrow> jsstring) \<Rightarrow> 'n jsval list \<Rightarrow> error + jsstring list" where
  "JS_String num JUndefined = Inr (lit ''undefined'')"
| "JS_String num JNull = Inr (lit ''null'')"
| "JS_String num (JBool b) = Inr (if b then lit ''true'' else lit ''false'')"
| "JS_String num (JNum n) = Inr (num n)"
| "JS_String num (JStr s) = Inr s"
| "JS_String num (JArr xs) =
     (case JS_String_elements num xs of
        Inl e \<Rightarrow> Inl e
      | Inr strs \<Rightarrow> Inr (join (lit '','') strs))"
| "JS_String num (JObj kvs) =
     (if lit ''toString'' \<in> set (map fst kvs) then Inl TypeError
      else Inr (lit ''[object Object]''))"
| "JS_String_elements num [] = Inr []"
| "JS_String_elements num (x # xs) =
     (case (if x = JUndefined \<or> x = JNull then Inr [] else JS_String num x) of
        Inl e \<Rightarrow> Inl e
      | Inr str \<Rightarrow>
          (case JS_String_elements num xs of Inl e \<Rightarrow> Inl e | Inr strs \<Rightarrow> Inr (str # strs)))"

subsection \<open>The data model: the interfaces of the source\<close>

record ImageSource =
  media_type :: "jsstring option"
  data :: "jsstring option"

text \<open>
  \<open>ImageResult.source\<close> is declared as required, but the component tests it before use
  and the elements of a result need not be images, so the field is optional here.
\<close>

record ImageResult =
  type :: jsstring
  source :: "ImageSource option"

datatype tool_result =
    ResultString jsstring
  | ResultArray "ImageResult list"
  | ResultObject ImageResult

datatype invocation_state = Call | Result | PartialCall

text \<open>
  \<open>args\<close> is a \<open>Record<string, any>\<close>; the component also accepts \<open>undefined\<close> and
  \<open>null\<close> there. An object is the list of its own enumerable properties in the order
  in which \<open>Object.entries\<close> enumerates them.
\<close>

datatype 'n js_args =
    ArgsUndefined
  | ArgsNull
  | ArgsObject "(jsstring \<times> 'n jsval) list"

record 'n ToolInvocation =
  toolCallId :: jsstring
  toolName :: jsstring
  args :: "'n js_args"
  state :: invocation_state
  result :: "tool_result option"

record ('n, 's) ToolRenderProps =
  toolInvocations :: "'n ToolInvocation list option"
  onImageClick :: "(jsstring \<Rightarrow> 's \<Rightarrow> 's) option"

text \<open>
  What the component takes from the JavaScript engine: the upper-case mapping of the
  Unicode character database and the conversion of a number to a string.
\<close>

record 'n engine =
  toUppercase :: "nat \<Rightarrow> nat list"
  numberToString :: "'n \<Rightarrow> jsstring"

subsection \<open>React elements\<close>

text \<open>
  The attributes the component sets. The names of the markup (tags, class names, the
  \<open>alt\<close> text) are literals of the source and are kept as such; \<open>key\<close> and \<open>src\<close> hold
  strings of the input. An event handler is a transformer of the host state \<open>'s\<close>, the
  state on which the caller's callback acts.
\<close>

record 's attrs =
  key :: "jsstring option"
  className :: "string option"
  src :: "jsstring option"
  alt :: "string option"
  onClick :: "('s \<Rightarrow> 's) option"

text \<open>
  What a JSX expression can evaluate to in this component: an element, a string, or one
  of the values \<open>null\<close>, \<open>false\<close> and \<open>undefined\<close>, for which React renders nothing.
  An array child (the value of a \<open>map\<close>) is written as the element's children.
\<close>

datatype 's vnode =
    Element string "'s attrs" "'s vnode list"
  | TextNode jsstring
  | NullNode
  | BoolNode bool
  | UndefinedNode

definition no_attrs :: "'s attrs" where
  "no_attrs = \<lparr>key = None, className = None, src = None, alt = None, onClick = None\<rparr>"

definition cls :: "string \<Rightarrow> 's attrs" where
  "cls c = no_attrs\<lparr>className := Some c\<rparr>"

subsection \<open>\<open>Object.entries\<close>\<close>

text \<open>\<open>Object.entries\<close> throws a \<open>TypeError\<close> on \<open>undefined\<close> and on \<open>null\<close>.\<close>

fun Object_entries :: "'n js_args \<Rightarrow> error + (jsstring \<times> 'n jsval) list" where
  "Object_entries ArgsUndefined = Inl TypeError"
| "Object_entries ArgsNull = Inl TypeError"
| "Object_entries (ArgsObject kvs) = Inr kvs"

text \<open>\<open>args || {}\<close>: \<open>undefined\<close> and \<open>null\<close> are falsy, every object is truthy.\<close>

fun or_empty_object :: "'n js_args \<Rightarrow> 'n js_args" where
  "or_empty_object ArgsUndefined = ArgsObject []"
| "or_empty_object ArgsNull = ArgsObject []"
| "or_empty_object (ArgsObject kvs) = ArgsObject kvs"

subsection \<open>The component\<close>

text \<open>
  One row of the argument list: the body of \<open>entries.map\<close>. The display name is
  computed first; \<open>String(paramValue)\<close> can throw.
\<close>

definition paramRow :: "'n engine \<Rightarrow> jsstring \<times> 'n jsval \<Rightarrow> error + 's vnode" where
  "paramRow env entry =
     (case entry of (paramName, paramValue) \<Rightarrow>
        let displayParamName = capitalizeAndReplaceUnderscores (toUppercase env) paramName in
        case JS_String (numberToString env) paramValue of
          Inl e \<Rightarrow> Inl e
        | Inr str \<Rightarrow>
            Inr (Element ''div''
              ((cls ''inline-flex h-5 items-center justify-start gap-6 self-stretch'')
                 \<lparr>key := Some paramName\<rparr>)
              [Element ''div''
                 (cls ''font-sans text-sm font-medium leading-tight text-[--gray-11]'')
                 [TextNode displayParamName],
               Element ''div''
                 (cls (''overflow-hidden truncate whitespace-nowrap font-mono text-xs '' @
                       ''font-medium leading-tight text-[--gray-12]''))
                 [TextNode str]]))"

text \<open>
  The status indicator:
  \<open>state === "call" ? <div spinner/> : (state === "result" && <span><CheckIcon/></span>)\<close>.
\<close>

definition statusIndicator :: "invocation_state \<Rightarrow> 's vnode" where
  "statusIndicator st =
     (if st = Call then
        Element ''div''
          (cls (''size-4 animate-spin rounded-full border-2 border-[--gray-12] '' @
                ''border-t-transparent''))
          []
      else if st = Result then
        Element ''span'' (cls ''flex size-4 items-center justify-center text-[--gray-12]'')
          [Element ''CheckIcon'' (cls ''size-4'') []]
      else BoolNode False)"

definition headerRow :: "jsstring \<Rightarrow> invocation_state \<Rightarrow> 's vnode" where
  "headerRow displayToolName st =
     Element ''div'' (cls ''inline-flex items-center justify-center gap-1 self-stretch'')
       [Element ''div''
          (cls (''shrink grow basis-0 font-sans text-sm font-medium leading-tight '' @
                ''text-[--gray-12]''))
          [TextNode displayToolName],
        Element ''div'' (cls ''flex size-5 items-center justify-center'')
          [statusIndicator st]]"

definition divider :: "'s vnode" where
  "divider =
     Element ''div'' (cls ''flex h-0 flex-col items-start justify-start'')
       [Element ''div'' (cls ''h-0 self-stretch border border-[--gray-3]'') []]"

text \<open>
  The constant \<open>imageResult\<close> of the inner function: the first element of an array whose
  \<open>type\<close> is \<open>"image"\<close>, a single object whose \<open>type\<close> is \<open>"image"\<close>, and otherwise
  \<open>undefined\<close> (a string has \<open>typeof\<close> \<open>"string"\<close>).
\<close>

fun imageResult :: "tool_result \<Rightarrow> ImageResult option" where
  "imageResult (ResultArray items) = List.find (\<lambda>item. type item = lit ''image'') items"
| "imageResult (ResultObject obj) = (if type obj = lit ''image'' then Some obj else None)"
| "imageResult (ResultString s) = None"

text \<open>A template literal prints an absent (\<open>undefined\<close>) value as \<open>undefined\<close>.\<close>

fun template_value :: "jsstring option \<Rightarrow> jsstring" where
  "template_value None = lit ''undefined''"
| "template_value (Some s) = s"

definition imageSrc :: "ImageSource \<Rightarrow> jsstring" where
  "imageSrc s =
     lit ''data:'' @ template_value (media_type s) @ lit '';base64,'' @ template_value (data s)"

text \<open>
  The inner function of the image slot. The handler of the image is
  \<open>() => onImageClick?.(imageSrc)\<close>: it calls the callback when there is one.
\<close>

definition imagePreview :: "(jsstring \<Rightarrow> 's \<Rightarrow> 's) option \<Rightarrow> tool_result \<Rightarrow> 's vnode" where
  "imagePreview cb r =
     (case imageResult r of
        None \<Rightarrow> NullNode
      | Some img \<Rightarrow>
          (case source img of
             None \<Rightarrow> NullNode
           | Some s \<Rightarrow>
               Element ''img''
                 \<lparr>key = None,
                  className = Some (''h-[39px] cursor-pointer self-stretch rounded-lg border '' @
                    ''border-[--gray-3] transition-opacity hover:opacity-90''),
                  src = Some (imageSrc s),
                  alt = Some ''Preview'',
                  onClick = Some (\<lambda>w. case cb of None \<Rightarrow> w | Some f \<Rightarrow> f (imageSrc s) w)\<rparr>
                 []))"

text \<open>
  \<open>state === "result" && toolInvocation.result && (<div>...</div>)\<close>: the value is
  \<open>false\<close> in another state, the result itself when it is falsy (\<open>undefined\<close>, or the
  empty string), and the slot otherwise.
\<close>

definition imageSlot ::
  "(jsstring \<Rightarrow> 's \<Rightarrow> 's) option \<Rightarrow> invocation_state \<Rightarrow> tool_result option \<Rightarrow> 's vnode" where
  "imageSlot cb st res =
     (if st \<noteq> Result then BoolNode False
      else case res of
        None \<Rightarrow> UndefinedNode
      | Some r \<Rightarrow>
          if r = ResultString [] then TextNode []
          else
            Element ''div''
              (cls ''inline-flex h-[39px] w-[71px] flex-col items-start justify-start gap-2.5'')
              [imagePreview cb r])"

text \<open>The body: the argument list (its rows already rendered) and the image slot.\<close>

definition bodyRow :: "'s vnode list \<Rightarrow> 's vnode \<Rightarrow> 's vnode" where
  "bodyRow rows slot =
     Element ''div''
       (cls ''inline-flex items-end justify-start gap-2 self-stretch overflow-hidden'')
       [Element ''div''
          (cls (''inline-flex shrink grow basis-0 flex-col items-start justify-start '' @
                ''gap-1 self-stretch overflow-hidden''))
          rows,
        slot]"

text \<open>The \<open>className\<close> of a block, a template literal over four lines.\<close>

definition blockClassName :: "invocation_state \<Rightarrow> string" where
  "blockClassName st =
     ''\<newline>              inline-flex w-full flex-col items-start justify-start'' @
     ''\<newline>              gap-2'' @
     ''\<newline>              '' @ (if st = Call then ''opacity-40'' else []) @
     ''\<newline>            ''"

text \<open>
  The function given to \<open>toolInvocations.map\<close>. The display name and the entries are
  computed before the test for \<open>pause_execution\<close>, as in the source; the rows are
  rendered inside the returned element, after that test, and an exception of
  \<open>String\<close> in a row ends the rendering.
\<close>

definition renderInvocation ::
  "'n engine \<Rightarrow> (jsstring \<Rightarrow> 's \<Rightarrow> 's) option \<Rightarrow> 'n ToolInvocation \<Rightarrow> error + 's vnode" where
  "renderInvocation env cb toolInvocation =
     (let displayToolName =
            capitalizeAndReplaceUnderscores (toUppercase env) (toolName toolInvocation) in
      case Object_entries (or_empty_object (args toolInvocation)) of
        Inl e \<Rightarrow> Inl e
      | Inr entries \<Rightarrow>
          if toolName toolInvocation = lit ''pause_execution'' then Inr NullNode
          else
            (case map_throwing (paramRow env) entries of
               Inl e \<Rightarrow> Inl e
             | Inr rows \<Rightarrow>
                 Inr (Element ''div''
                   ((cls (blockClassName (state toolInvocation)))
                      \<lparr>key := Some (toolCallId toolInvocation)\<rparr>)
                   [headerRow displayToolName (state toolInvocation),
                    divider,
                    bodyRow rows
                      (imageSlot cb (state toolInvocation) (result toolInvocation))])))"

text \<open>
  The component: \<open>null\<close> when the prop is absent (an array, also the empty one, is
  truthy), and otherwise the container with one child per invocation.
\<close>

definition ToolInvocations :: "'n engine \<Rightarrow> ('n, 's) ToolRenderProps \<Rightarrow> error + 's vnode" where
  "ToolInvocations env props =
     (case toolInvocations props of
        None \<Rightarrow> Inr NullNode
      | Some invocations \<Rightarrow>
          (case map_throwing (renderInvocation env (onImageClick props)) invocations of
             Inl e \<Rightarrow> Inl e
           | Inr children \<Rightarrow> Inr (Element ''div'' (cls ''flex w-full flex-col gap-2'') children)))"

subsection \<open>Reading the rendered tree\<close>

text \<open>
  What an observer of the output can ask of a node: its tag, attributes and children,
  the nodes below it in document order, its class list (the \<open>className\<close> split at ASCII
  whitespace, as the DOM does), and what a click on it does to the host state.
\<close>

fun tag :: "'s vnode \<Rightarrow> string option" where
  "tag (Element t a cs) = Some t"
| "tag n = None"

fun attrs_of :: "'s vnode \<Rightarrow> 's attrs" where
  "attrs_of (Element t a cs) = a"
| "attrs_of n = no_attrs"

fun children :: "'s vnode \<Rightarrow> 's vnode list" where
  "children (Element t a cs) = cs"
| "children n = []"

fun descendants :: "'s vnode \<Rightarrow> 's vnode list" where
  "descendants (Element t a cs) = Element t a cs # concat (map descendants cs)"
| "descendants n = [n]"

definition isAsciiWhitespace :: "char \<Rightarrow> bool" where
  "isAsciiWhitespace c \<longleftrightarrow>
     c = CHR 0x20 \<or> c = CHR 0x09 \<or> c = CHR 0x0A \<or> c = CHR 0x0C \<or> c = CHR 0x0D"

fun tokens :: "string \<Rightarrow> string \<Rightarrow> string list" where
  "tokens cur [] = (if cur = [] then [] else [cur])"
| "tokens cur (c # cs) =
     (if isAsciiWhitespace c then (if cur = [] then tokens [] cs else cur # tokens [] cs)
      else tokens (cur @ [c]) cs)"

definition classList :: "'s vnode \<Rightarrow> string list" where
  "classList n = (case className (attrs_of n) of None \<Rightarrow> [] | Some c \<Rightarrow> tokens [] c)"

definition hasClass :: "string \<Rightarrow> 's vnode \<Rightarrow> bool" where
  "hasClass c n \<longleftrightarrow> c \<in> set (classList n)"

text \<open>The block is dimmed by the class \<open>opacity-40\<close>.\<close>

definition reducedOpacity :: "'s vnode \<Rightarrow> bool" where
  "reducedOpacity n \<longleftrightarrow> hasClass ''opacity-40'' n"

text \<open>The spinner is the element that carries \<open>animate-spin\<close>; the checkmark is the icon.\<close>

definition hasSpinner :: "'s vnode \<Rightarrow> bool" where
  "hasSpinner n \<longleftrightarrow> list_ex (hasClass ''animate-spin'') (descendants n)"

definition hasCheckmark :: "'s vnode \<Rightarrow> bool" where
  "hasCheckmark n \<longleftrightarrow> list_ex (\<lambda>e. tag e = Some ''CheckIcon'') (descendants n)"

definition images :: "'s vnode \<Rightarrow> 's vnode list" where
  "images n = filter (\<lambda>e. tag e = Some ''img'') (descendants n)"

definition click :: "'s vnode \<Rightarrow> 's \<Rightarrow> 's" where
  "click n w = (case onClick (attrs_of n) of None \<Rightarrow> w | Some h \<Rightarrow> h w)"

text \<open>React renders nothing for \<open>null\<close>, \<open>undefined\<close>, a boolean and the empty string.\<close>

fun rendersNothing :: "'s vnode \<Rightarrow> bool" where
  "rendersNothing (Element t a cs) = False"
| "rendersNothing (TextNode s) = (s = [])"
| "rendersNothing n = True"

text \<open>The children of the container that show on the screen: the visual blocks.\<close>

definition blocks :: "'s vnode \<Rightarrow> 's vnode list" where
  "blocks root = filter (\<lambda>n. \<not> rendersNothing n) (children root)"

text \<open>The child that the component's output holds at position \<open>i\<close>, if it has one.\<close>

definition childAt :: "error + 's vnode \<Rightarrow> nat \<Rightarrow> 's vnode option" where
  "childAt out i =
     (case out of
        Inl e \<Rightarrow> None
      | Inr root \<Rightarrow> if i < length (children root) then Some (children root ! i) else None)"

text \<open>
  \<open>block\<close> is the visual block that the component renders for the invocation at
  position \<open>i\<close>: the child of the container at that position, when it shows.
\<close>

definition renderedBlock ::
  "'n engine \<Rightarrow> ('n, 's) ToolRenderProps \<Rightarrow> nat \<Rightarrow> 's vnode \<Rightarrow> bool" where
  "renderedBlock env props i block \<longleftrightarrow>
     childAt (ToolInvocations env props) i = Some block \<and> \<not> rendersNothing block"

text \<open>
  The parameter rows of a block are the children of the first child of its third child
  (header, divider, body; in the body the argument list, then the image slot). A row
  shows two texts: the name and the value.
\<close>

definition parameterRows :: "'s vnode \<Rightarrow> 's vnode list" where
  "parameterRows block =
     (case children block of
        [header, rule, body] \<Rightarrow> (case children body of argList # rest \<Rightarrow> children argList | [] \<Rightarrow> [])
      | _ \<Rightarrow> [])"

fun texts :: "'s vnode \<Rightarrow> jsstring list" where
  "texts (Element t a cs) = concat (map texts cs)"
| "texts (TextNode s) = [s]"
| "texts n = []"

text \<open>The title of a block is the text of its header.\<close>

definition titleTexts :: "'s vnode \<Rightarrow> jsstring list" where
  "titleTexts block = (case children block of header # rest \<Rightarrow> texts header | [] \<Rightarrow> [])"

subsection \<open>The specification's wording\<close>

text \<open>
  The display name as the specification words it: every underscore becomes a space,
  then the first character of the result, and only it, is put in upper case. The first
  character of a string is its first code point: two code units when the string begins
  with a surrogate pair, one otherwise.
\<close>

definition underscoresToSpaces :: "jsstring \<Rightarrow> jsstring" where
  "underscoresToSpaces s = map (\<lambda>c. if c = ascii CHR ''_'' then ascii CHR '' '' else c) s"

definition startsWithSurrogatePair :: "jsstring \<Rightarrow> bool" where
  "startsWithSurrogatePair s =
     (case s of c # d # cs \<Rightarrow> isHighSurrogate c \<and> isLowSurrogate d | _ \<Rightarrow> False)"

fun uppercaseFirst :: "(nat \<Rightarrow> nat list) \<Rightarrow> jsstring \<Rightarrow> jsstring" where
  "uppercaseFirst up [] = []"
| "uppercaseFirst up [c] = toUpperCase up [c]"
| "uppercaseFirst up (c # d # cs) =
     (if isHighSurrogate c \<and> isLowSurrogate d then toUpperCase up [c, d] @ cs
      else toUpperCase up [c] @ d # cs)"

definition displayNameSpec :: "(nat \<Rightarrow> nat list) \<Rightarrow> jsstring \<Rightarrow> jsstring" where
  "displayNameSpec up s = uppercaseFirst up (underscoresToSpaces s)"

text \<open>The entries of \<open>args\<close> as the specification words them: an absent \<open>args\<close> has none.\<close>

fun entriesOf :: "'n js_args \<Rightarrow> (jsstring \<times> 'n jsval) list" where
  "entriesOf (ArgsObject kvs) = kvs"
| "entriesOf a = []"

text \<open>
  The string conversion of every parameter value of an invocation succeeds: no value
  is, or holds in its arrays, an object with an own property \<open>toString\<close>.
\<close>

definition returns :: "error + 'a \<Rightarrow> bool" where
  "returns r = (case r of Inl e \<Rightarrow> False | Inr v \<Rightarrow> True)"

definition valuesConvert :: "'n engine \<Rightarrow> 'n ToolInvocation \<Rightarrow> bool" where
  "valuesConvert env t =
     list_all (\<lambda>entry. returns (JS_String (numberToString env) (snd entry)))
       (entriesOf (args t))"

text \<open>A callback that records its argument: the host state is the list of the calls made.\<close>

definition recordCall :: "jsstring \<Rightarrow> jsstring list \<Rightarrow> jsstring list" where
  "recordCall s calls = calls @ [s]"

text \<open>
  The node of one invocation in the container: what the function given to \<open>map\<close>
  returns, when it returns.
\<close>

definition invocationNode ::
  "'n engine \<Rightarrow> (jsstring \<Rightarrow> 's \<Rightarrow> 's) option \<Rightarrow> 'n ToolInvocation \<Rightarrow> 's vnode" where
  "invocationNode env cb t = (case renderInvocation env cb t of Inl e \<Rightarrow> NullNode | Inr n \<Rightarrow> n)"

text \<open>The click handlers that a tree holds, in document order.\<close>

definition clickHandlers :: "'s vnode \<Rightarrow> ('s \<Rightarrow> 's) list" where
  "clickHandlers n = List.map_filter (\<lambda>e. onClick (attrs_of e)) (descendants n)"

subsection \<open>Example inputs\<close>

text \<open>
  An engine for the examples. Its upper-case mapping is the one of Unicode at the code
  points listed (the letters \<open>a\<close> to \<open>z\<close>, e with acute, sharp s, and the Deseret small
  letter long I, \<open>U+10428\<close>) and leaves every other code point as it is, which is what
  Unicode does for those without an upper case, such as digits, space and the
  surrogates. Its numbers are given by their decimal text.
\<close>

definition sampleUppercase :: "nat \<Rightarrow> nat list" where
  "sampleUppercase cp =
     (if 0x61 \<le> cp \<and> cp \<le> 0x7A then [cp - 0x20]
      else if cp = 0xE9 then [0xC9]
      else if cp = 0xDF then [0x53, 0x53]
      else if cp = 0x10428 then [0x10400]
      else [cp])"

definition printNumber :: "jsstring \<Rightarrow> jsstring" where
  "printNumber n = n"

definition sampleEngine :: "jsstring engine" where
  "sampleEngine = \<lparr>toUppercase = sampleUppercase, numberToString = printNumber\<rparr>"

text \<open>Some invocations, and props that hold five of them with the recording callback.\<close>

definition exampleCall :: "jsstring ToolInvocation" where
  "exampleCall =
     \<lparr>toolCallId = lit ''call_1'', toolName = lit ''get_user_data'',
      args = ArgsObject [(lit ''user_id'', JNum (lit ''7'')), (lit ''with_history'', JBool True)],
      state = Call, result = None\<rparr>"

definition examplePause :: "jsstring ToolInvocation" where
  "examplePause =
     \<lparr>toolCallId = lit ''call_2'', toolName = lit ''pause_execution'', args = ArgsNull,
      state = Result, result = Some (ResultString (lit ''ok''))\<rparr>"

definition exampleScreenshot :: "jsstring ToolInvocation" where
  "exampleScreenshot =
     \<lparr>toolCallId = lit ''call_3'', toolName = lit ''take_screenshot'', args = ArgsUndefined,
      state = Result,
      result = Some (ResultArray
        [\<lparr>type = lit ''text'', source = None\<rparr>,
         \<lparr>type = lit ''image'',
          source = Some \<lparr>media_type = Some (lit ''image/png''), data = Some (lit ''AAAA'')\<rparr>\<rparr>])\<rparr>"

definition examplePartial :: "jsstring ToolInvocation" where
  "examplePartial =
     \<lparr>toolCallId = lit ''call_4'', toolName = lit ''go_to_url'',
      args = ArgsObject [(lit ''url'', JStr (lit ''https://example.org''))],
      state = PartialCall, result = None\<rparr>"

definition exampleBare :: "jsstring ToolInvocation" where
  "exampleBare =
     \<lparr>toolCallId = lit ''call_5'', toolName = lit ''take_screenshot'', args = ArgsObject [],
      state = Result,
      result = Some (ResultObject
        \<lparr>type = lit ''image'', source = Some \<lparr>media_type = None, data = None\<rparr>\<rparr>)\<rparr>"

definition exampleDone :: "jsstring ToolInvocation" where
  "exampleDone =
     \<lparr>toolCallId = lit ''call_6'', toolName = lit ''click'',
      args = ArgsObject [(lit ''x'', JNum (lit ''10''))],
      state = Result, result = None\<rparr>"

text \<open>Values of every kind: an array that nests, plain objects, a string.\<close>

definition exampleMixed :: "jsstring ToolInvocation" where
  "exampleMixed =
     \<lparr>toolCallId = lit ''call_7'', toolName = lit ''search'',
      args = ArgsObject
        [(lit ''tags'',
          JArr [JNum (lit ''1''), JNull, JStr (lit ''a''), JArr [JBool True, JUndefined], JObj []]),
         (lit ''opts'', JObj [(lit ''deep'', JBool False)]),
         (lit ''note'', JStr (lit ''hi''))],
      state = Call, result = None\<rparr>"

text \<open>
  A parameter value on which \<open>String\<close> throws: the object \<open>{toString: "a"}\<close>, which
  \<open>JSON.parse\<close> can produce.
\<close>

definition exampleThrowing :: "jsstring ToolInvocation" where
  "exampleThrowing =
     \<lparr>toolCallId = lit ''call_8'', toolName = lit ''click'',
      args = ArgsObject [(lit ''opts'', JObj [(lit ''toString'', JStr (lit ''a''))])],
      state = Call, result = None\<rparr>"

text \<open>
  A name that begins with a letter outside the Basic Multilingual Plane: the Deseret
  small letter long I (\<open>U+10428\<close>, the surrogate pair \<open>D801 DC28\<close>), then \<open>_x\<close>. Its
  capital is \<open>U+10400\<close>, the pair \<open>D801 DC00\<close>.
\<close>

definition deseretName :: jsstring where
  "deseretName = [0xD801, 0xDC28] @ lit ''_x''"

definition exampleInvocations :: "jsstring ToolInvocation list" where
  "exampleInvocations = [exampleCall, examplePause, exampleScreenshot, examplePartial, exampleBare]"

definition exampleProps :: "(jsstring, jsstring list) ToolRenderProps" where
  "exampleProps = \<lparr>toolInvocations = Some exampleInvocations, onImageClick = Some recordCall\<rparr>"

section \<open>Properties\<close>

subsection \<open>Auxiliary facts\<close>

lemma unat_ascii: "unat (ascii c) = of_char c"
proof -
  have "ascii c = word_of_nat (of_char c)"
    by (simp add: ascii_def of_nat_of_char)
  moreover have "(of_char c :: nat) < 2 ^ 16"
    by (rule less_trans [OF nat_of_char_less_256]) simp
  ultimately show ?thesis
    by (simp add: unat_of_nat)
qed

lemma ascii_eq_iff [simp]: "ascii c = ascii d \<longleftrightarrow> c = d"
proof
  assume "ascii c = ascii d"
  then have "unat (ascii c) = unat (ascii d)" by simp
  then have "(of_char c :: nat) = of_char d" by (simp only: unat_ascii)
  then show "c = d" by simp
qed simp

lemma lit_simps: "lit [] = []" "lit (c # cs) = ascii c # lit cs"
  by (simp_all add: lit_def)

lemma lit_eq_iff [simp]: "lit s = lit t \<longleftrightarrow> s = t"
  by (induction s arbitrary: t) (case_tac t; simp add: lit_simps)+

lemma lit_eq_Nil_iff [simp]: "lit s = [] \<longleftrightarrow> s = []" "[] = lit s \<longleftrightarrow> s = []"
  by (cases s; simp add: lit_simps)+

lemma lit_append: "lit (s @ t) = lit s @ lit t"
  by (simp add: lit_def)

lemma ascii_not_surrogate [simp]: "\<not> isHighSurrogate (ascii c)" "\<not> isLowSurrogate (ascii c)"
proof -
  have small: "unat (ascii c) < 256"
    by (simp add: unat_ascii)
  show "\<not> isHighSurrogate (ascii c)"
    unfolding isHighSurrogate_def word_le_nat_alt using small by simp
  show "\<not> isLowSurrogate (ascii c)"
    unfolding isLowSurrogate_def word_le_nat_alt using small by simp
qed

lemma replaceAll_underscore:
  "replaceAll (ascii CHR ''_'') (lit '' '') s = underscoresToSpaces s"
  by (induction s) (simp_all add: replaceAll_def underscoresToSpaces_def lit_simps)

lemma codeUnits_unat: "codeUnits (unat (c :: code_unit)) = [c]"
proof -
  have "unat c < 2 ^ LENGTH(16)"
    by (rule unsigned_less)
  then show ?thesis
    by (simp add: codeUnits_def)
qed

lemma toUpperCase_unchanged: "up (unat c) = [unat c] \<Longrightarrow> toUpperCase up [c] = [c]"
  by (simp add: toUpperCase_def codeUnits_unat)

lemma startsWithSurrogatePair_underscoresToSpaces:
  "startsWithSurrogatePair (underscoresToSpaces s) = startsWithSurrogatePair s"
proof -
  have u: "\<not> isHighSurrogate (ascii CHR ''_'')" "\<not> isLowSurrogate (ascii CHR ''_'')"
    by simp_all
  show ?thesis
    using u
    by (auto simp: startsWithSurrogatePair_def underscoresToSpaces_def split: list.splits)
qed

lemma replace_caret_dot_uppercaseFirst:
  assumes "\<And>c. isLineTerminator c \<Longrightarrow> up (unat c) = [unat c]"
    and "\<not> startsWithSurrogatePair s"
  shows "replace_caret_dot (toUpperCase up) s = uppercaseFirst up s"
proof (cases s)
  case Nil
  then show ?thesis by simp
next
  case (Cons c rest)
  show ?thesis
  proof (cases rest)
    case Nil
    with Cons show ?thesis by (simp add: toUpperCase_unchanged assms(1))
  next
    case (Cons d cs)
    with \<open>s = c # rest\<close> assms(2) have "\<not> (isHighSurrogate c \<and> isLowSurrogate d)"
      by (simp add: startsWithSurrogatePair_def)
    with Cons \<open>s = c # rest\<close> show ?thesis by (auto simp: toUpperCase_unchanged assms(1))
  qed
qed

lemma capitalize_displayNameSpec:
  assumes "\<And>c. isLineTerminator c \<Longrightarrow> up (unat c) = [unat c]"
    and "\<not> startsWithSurrogatePair s"
  shows "capitalizeAndReplaceUnderscores up s = displayNameSpec up s"
  using assms
  by (simp add: capitalizeAndReplaceUnderscores_def displayNameSpec_def replaceAll_underscore
      replace_caret_dot_uppercaseFirst startsWithSurrogatePair_underscoresToSpaces)

lemma sample_eval:
  "capitalizeAndReplaceUnderscores sampleUppercase (lit ''get_user_data'') = lit ''Get user data''"
  "capitalizeAndReplaceUnderscores sampleUppercase (lit ''user_id'') = lit ''User id''"
  "capitalizeAndReplaceUnderscores sampleUppercase (lit ''with_history'') = lit ''With history''"
  "capitalizeAndReplaceUnderscores sampleUppercase (lit ''x'') = lit ''X''"
  "capitalizeAndReplaceUnderscores sampleUppercase (lit ''tags'') = lit ''Tags''"
  "capitalizeAndReplaceUnderscores sampleUppercase (lit ''opts'') = lit ''Opts''"
  "capitalizeAndReplaceUnderscores sampleUppercase (lit ''note'') = lit ''Note''"
  by (simp_all add: capitalizeAndReplaceUnderscores_def replaceAll_def toUpperCase_def
      sampleUppercase_def codeUnits_def isLineTerminator_def ascii_def lit_simps)

lemma Object_entries_or_empty: "Object_entries (or_empty_object a) = Inr (entriesOf a)"
  by (cases a) simp_all

lemma error_is_TypeError: "(e :: error) = TypeError"
  by (cases e) simp

lemma not_returns_iff: "\<not> returns r \<longleftrightarrow> r = Inl TypeError"
  by (cases r) (simp_all add: returns_def error_is_TypeError)

lemma returns_Inr [simp]: "returns (Inr v)" "\<not> returns (Inl e)"
  by (simp_all add: returns_def)

lemma map_throwing_Inr_iff:
  "map_throwing f xs = Inr ys \<longleftrightarrow> list_all2 (\<lambda>x y. f x = Inr y) xs ys"
proof (induction xs arbitrary: ys)
  case Nil
  then show ?case by auto
next
  case (Cons x xs)
  show ?case
    by (cases ys) (auto simp: Cons.IH [symmetric] split: sum.splits)
qed

lemma returns_map_throwing:
  "returns (map_throwing f xs) \<longleftrightarrow> list_all (\<lambda>x. returns (f x)) xs"
  by (induction xs) (auto simp: returns_def split: sum.splits)

lemma hasClass_Element:
  "hasClass c (Element t a cs) \<longleftrightarrow> (case className a of None \<Rightarrow> False | Some s \<Rightarrow> c \<in> set (tokens [] s))"
  by (simp add: hasClass_def classList_def split: option.splits)

lemma hasClass_cls [simp]: "hasClass c (Element t (cls s) cs) \<longleftrightarrow> c \<in> set (tokens [] s)"
  by (simp add: hasClass_Element cls_def no_attrs_def)

lemma hasClass_cls_key [simp]:
  "hasClass c (Element t ((cls s)\<lparr>key := k\<rparr>) cs) \<longleftrightarrow> c \<in> set (tokens [] s)"
  by (simp add: hasClass_Element cls_def no_attrs_def)

lemma hasClass_nonElement [simp]:
  "\<not> hasClass c (TextNode s)" "\<not> hasClass c NullNode" "\<not> hasClass c (BoolNode b)"
  "\<not> hasClass c UndefinedNode"
  by (simp_all add: hasClass_def classList_def no_attrs_def)

lemma hasSpinner_Element:
  "hasSpinner (Element t a cs) \<longleftrightarrow>
     hasClass ''animate-spin'' (Element t a cs) \<or> list_ex hasSpinner cs"
  by (auto simp: hasSpinner_def list_ex_iff)

lemma hasCheckmark_Element:
  "hasCheckmark (Element t a cs) \<longleftrightarrow> t = ''CheckIcon'' \<or> list_ex hasCheckmark cs"
  by (auto simp: hasCheckmark_def list_ex_iff)

lemma images_Element:
  "images (Element t a cs) =
     (if t = ''img'' then [Element t a cs] else []) @ concat (map images cs)"
  by (simp add: images_def [abs_def] filter_concat comp_def)

lemma hasSpinner_leaf [simp]:
  "\<not> hasSpinner (TextNode s)" "\<not> hasSpinner NullNode" "\<not> hasSpinner (BoolNode b)"
  "\<not> hasSpinner UndefinedNode"
  by (simp_all add: hasSpinner_def)

lemma hasCheckmark_leaf [simp]:
  "\<not> hasCheckmark (TextNode s)" "\<not> hasCheckmark NullNode" "\<not> hasCheckmark (BoolNode b)"
  "\<not> hasCheckmark UndefinedNode"
  by (simp_all add: hasCheckmark_def)

lemma images_leaf [simp]:
  "images (TextNode s) = []" "images NullNode = []" "images (BoolNode b) = []"
  "images UndefinedNode = []"
  by (simp_all add: images_def)

lemma hasSpinner_headerRow: "hasSpinner (headerRow n st) \<longleftrightarrow> st = Call"
  by (simp add: headerRow_def statusIndicator_def hasSpinner_Element isAsciiWhitespace_def)

lemma hasCheckmark_headerRow: "hasCheckmark (headerRow n st) \<longleftrightarrow> st = Result"
  by (simp add: headerRow_def statusIndicator_def hasCheckmark_Element)

lemma images_headerRow: "images (headerRow n st) = []"
  by (simp add: headerRow_def statusIndicator_def images_Element)

lemma divider_plain: "\<not> hasSpinner divider" "\<not> hasCheckmark divider" "images divider = []"
  by (simp_all add: divider_def hasSpinner_Element hasCheckmark_Element images_Element
      isAsciiWhitespace_def)

lemma imagePreview_plain:
  "\<not> hasSpinner (imagePreview cb r)" "\<not> hasCheckmark (imagePreview cb r)"
  by (simp_all add: imagePreview_def hasSpinner_Element hasCheckmark_Element hasClass_Element
      isAsciiWhitespace_def split: option.splits)

lemma imageSlot_plain:
  "\<not> hasSpinner (imageSlot cb st res)" "\<not> hasCheckmark (imageSlot cb st res)"
  by (simp_all add: imageSlot_def hasSpinner_Element hasCheckmark_Element imagePreview_plain
      isAsciiWhitespace_def split: option.splits)

lemma images_imagePreview:
  "images (imagePreview cb r) =
     (case imageResult r of
        None \<Rightarrow> []
      | Some img \<Rightarrow> (case source img of None \<Rightarrow> [] | Some s \<Rightarrow> [imagePreview cb r]))"
  by (simp add: imagePreview_def images_Element split: option.splits)

lemma images_imageSlot:
  "images (imageSlot cb st res) =
     (if st = Result then (case res of None \<Rightarrow> [] | Some r \<Rightarrow> images (imagePreview cb r)) else [])"
  by (auto simp: imageSlot_def images_Element images_imagePreview split: option.splits)

lemma imageResult_array_first:
  "imageResult (ResultArray items) = Some x \<longleftrightarrow>
     (\<exists>k<length items. items ! k = x \<and> type x = lit ''image'' \<and>
        (\<forall>j<k. type (items ! j) \<noteq> lit ''image''))"
  by (auto simp: find_Some_iff)

lemma imagePreview_src:
  "imageResult r = Some img \<Longrightarrow> source img = Some s \<Longrightarrow>
   src (attrs_of (imagePreview cb r)) = Some (imageSrc s)"
  by (simp add: imagePreview_def)

lemma imagePreview_click:
  "imageResult r = Some img \<Longrightarrow> source img = Some s \<Longrightarrow>
   click (imagePreview cb r) w = (case cb of None \<Rightarrow> w | Some f \<Rightarrow> f (imageSrc s) w)"
  by (simp add: imagePreview_def click_def)

lemma returns_paramRow:
  "returns (paramRow env entry) \<longleftrightarrow> returns (JS_String (numberToString env) (snd entry))"
  by (cases entry) (simp add: paramRow_def returns_def split: sum.splits)

lemma paramRow_Inr:
  assumes "paramRow env (k, v) = Inr row"
  shows "\<exists>str. JS_String (numberToString env) v = Inr str \<and>
           texts row = [capitalizeAndReplaceUnderscores (toUppercase env) k, str]"
    and "key (attrs_of row) = Some k"
    and "\<not> hasSpinner row" and "\<not> hasCheckmark row" and "images row = []"
  using assms
  by (auto simp: paramRow_def cls_def no_attrs_def hasSpinner_Element hasCheckmark_Element
      images_Element hasClass_Element isAsciiWhitespace_def split: sum.splits)

lemma rows_plain:
  assumes "list_all2 (\<lambda>entry row. paramRow env entry = Inr row) entries rows"
  shows "\<not> list_ex hasSpinner rows" and "\<not> list_ex hasCheckmark rows"
    and "concat (map images rows) = []"
proof -
  have each: "\<not> hasSpinner row \<and> \<not> hasCheckmark row \<and> images row = []" if "row \<in> set rows" for row
  proof -
    from that obtain i where "i < length rows" and "row = rows ! i"
      by (auto simp: in_set_conv_nth)
    with assms have "paramRow env (entries ! i) = Inr row"
      by (simp add: list_all2_conv_all_nth)
    then show ?thesis
      by (cases "entries ! i") (simp add: paramRow_Inr)
  qed
  show "\<not> list_ex hasSpinner rows" and "\<not> list_ex hasCheckmark rows"
    using each by (auto simp: list_ex_iff)
  show "concat (map images rows) = []"
    using each by (induction rows) simp_all
qed

lemma renderInvocation_pause:
  "toolName t = lit ''pause_execution'' \<Longrightarrow> renderInvocation env cb t = Inr NullNode"
  by (simp add: renderInvocation_def Object_entries_or_empty)

lemma renderInvocation_block_iff:
  assumes "toolName t \<noteq> lit ''pause_execution''"
  shows "renderInvocation env cb t = Inr block \<longleftrightarrow>
     (\<exists>rows. list_all2 (\<lambda>entry row. paramRow env entry = Inr row) (entriesOf (args t)) rows \<and>
        block =
          Element ''div'' ((cls (blockClassName (state t)))\<lparr>key := Some (toolCallId t)\<rparr>)
            [headerRow (capitalizeAndReplaceUnderscores (toUppercase env) (toolName t)) (state t),
             divider,
             bodyRow rows (imageSlot cb (state t) (result t))])"
  using assms
  by (auto simp: renderInvocation_def Object_entries_or_empty map_throwing_Inr_iff [symmetric]
      split: sum.splits)

lemma returns_renderInvocation:
  fixes cb :: "(jsstring \<Rightarrow> 's \<Rightarrow> 's) option"
  shows "returns (renderInvocation env cb t) \<longleftrightarrow>
     toolName t = lit ''pause_execution'' \<or> valuesConvert env t"
proof (cases "toolName t = lit ''pause_execution''")
  case True
  then show ?thesis by (simp add: renderInvocation_pause)
next
  case False
  have "returns (renderInvocation env cb t) \<longleftrightarrow>
      returns (map_throwing (paramRow env :: _ \<Rightarrow> error + 's vnode) (entriesOf (args t)))"
    using False
    by (simp add: renderInvocation_def Object_entries_or_empty returns_def split: sum.splits)
  with False show ?thesis
    by (simp add: returns_map_throwing returns_paramRow valuesConvert_def)
qed

lemma renderInvocation_Inr_node:
  "renderInvocation env cb t = Inr n \<Longrightarrow> invocationNode env cb t = n"
  by (simp add: invocationNode_def)

lemma ToolInvocations_Inr_iff:
  assumes "toolInvocations props = Some ts"
  shows "ToolInvocations env props = Inr root \<longleftrightarrow>
     (\<exists>children.
        list_all2 (\<lambda>t n. renderInvocation env (onImageClick props) t = Inr n) ts children \<and>
        root = Element ''div'' (cls ''flex w-full flex-col gap-2'') children)"
  using assms
  by (auto simp: ToolInvocations_def map_throwing_Inr_iff [symmetric] split: sum.splits)

lemma returns_ToolInvocations:
  assumes "toolInvocations props = Some ts"
  shows "returns (ToolInvocations env props) \<longleftrightarrow>
     list_all (\<lambda>t. toolName t = lit ''pause_execution'' \<or> valuesConvert env t) ts"
proof -
  have "returns (ToolInvocations env props) \<longleftrightarrow>
      returns (map_throwing (renderInvocation env (onImageClick props)) ts)"
    using assms by (simp add: ToolInvocations_def returns_def split: sum.splits)
  then show ?thesis
    by (simp add: returns_map_throwing returns_renderInvocation)
qed

lemma childAt_ToolInvocations:
  assumes "toolInvocations props = Some ts" and "i < length ts"
  shows "childAt (ToolInvocations env props) i = Some n \<longleftrightarrow>
     returns (ToolInvocations env props) \<and>
     renderInvocation env (onImageClick props) (ts ! i) = Inr n"
proof (cases "ToolInvocations env props")
  case (Inl e)
  then show ?thesis by (simp add: childAt_def)
next
  case (Inr root)
  then obtain children
    where all: "list_all2 (\<lambda>t n. renderInvocation env (onImageClick props) t = Inr n) ts children"
      and root: "root = Element ''div'' (cls ''flex w-full flex-col gap-2'') children"
    using ToolInvocations_Inr_iff [OF assms(1)] by blast
  from all assms(2) have len: "i < length children"
    and at: "renderInvocation env (onImageClick props) (ts ! i) = Inr (children ! i)"
    by (simp_all add: list_all2_conv_all_nth)
  show ?thesis
    using Inr len at by (auto simp: childAt_def root)
qed

lemma renderedBlock_iff:
  assumes "toolInvocations props = Some ts" and "i < length ts"
  shows "renderedBlock env props i block \<longleftrightarrow>
     returns (ToolInvocations env props) \<and>
     toolName (ts ! i) \<noteq> lit ''pause_execution'' \<and>
     renderInvocation env (onImageClick props) (ts ! i) = Inr block"
proof (cases "toolName (ts ! i) = lit ''pause_execution''")
  case True
  then show ?thesis
    by (auto simp: renderedBlock_def childAt_ToolInvocations [OF assms] renderInvocation_pause)
next
  case False
  then show ?thesis
    by (auto simp: renderedBlock_def childAt_ToolInvocations [OF assms]
        renderInvocation_block_iff)
qed

lemma returns_renderInvocation_node:
  "returns (renderInvocation env cb t) \<Longrightarrow>
   renderInvocation env cb t = Inr (invocationNode env cb t)"
  by (cases "renderInvocation env cb t") (simp_all add: invocationNode_def)

lemma renderedBlock_node:
  assumes "toolInvocations props = Some ts" and "i < length ts"
    and "returns (ToolInvocations env props)"
    and "toolName (ts ! i) \<noteq> lit ''pause_execution''"
  shows "renderedBlock env props i (invocationNode env (onImageClick props) (ts ! i))"
proof -
  from assms(1,3) have "list_all (\<lambda>t. returns (renderInvocation env (onImageClick props) t)) ts"
    by (simp add: returns_ToolInvocations returns_renderInvocation)
  with assms(2) have "returns (renderInvocation env (onImageClick props) (ts ! i))"
    by (simp add: list_all_length)
  then show ?thesis
    using assms by (simp add: renderedBlock_iff returns_renderInvocation_node)
qed

lemma block_shape:
  assumes "toolName t \<noteq> lit ''pause_execution''" and "renderInvocation env cb t = Inr block"
  obtains rows where
    "list_all2 (\<lambda>entry row. paramRow env entry = Inr row) (entriesOf (args t)) rows"
    and "block =
      Element ''div'' ((cls (blockClassName (state t)))\<lparr>key := Some (toolCallId t)\<rparr>)
        [headerRow (capitalizeAndReplaceUnderscores (toUppercase env) (toolName t)) (state t),
         divider,
         bodyRow rows (imageSlot cb (state t) (result t))]"
  using assms(2) unfolding renderInvocation_block_iff [OF assms(1)]
  by (elim exE conjE) (rule that; assumption)

lemma block_key:
  assumes "toolName t \<noteq> lit ''pause_execution''" and "renderInvocation env cb t = Inr block"
  shows "tag block = Some ''div''" and "key (attrs_of block) = Some (toolCallId t)"
    and "\<not> rendersNothing block"
proof -
  from block_shape [OF assms] obtain rows
    where rows: "list_all2 (\<lambda>entry row. paramRow env entry = Inr row) (entriesOf (args t)) rows"
      and block: "block =
        Element ''div'' ((cls (blockClassName (state t)))\<lparr>key := Some (toolCallId t)\<rparr>)
          [headerRow (capitalizeAndReplaceUnderscores (toUppercase env) (toolName t)) (state t),
           divider,
           bodyRow rows (imageSlot cb (state t) (result t))]" .
  show "tag block = Some ''div''" and "key (attrs_of block) = Some (toolCallId t)"
    and "\<not> rendersNothing block"
    by (simp_all add: block cls_def no_attrs_def)
qed

lemma block_reducedOpacity:
  assumes "toolName t \<noteq> lit ''pause_execution''" and "renderInvocation env cb t = Inr block"
  shows "reducedOpacity block \<longleftrightarrow> state t = Call"
proof -
  from block_shape [OF assms] obtain rows
    where rows: "list_all2 (\<lambda>entry row. paramRow env entry = Inr row) (entriesOf (args t)) rows"
      and block: "block =
        Element ''div'' ((cls (blockClassName (state t)))\<lparr>key := Some (toolCallId t)\<rparr>)
          [headerRow (capitalizeAndReplaceUnderscores (toUppercase env) (toolName t)) (state t),
           divider,
           bodyRow rows (imageSlot cb (state t) (result t))]" .
  show ?thesis
    by (simp add: block reducedOpacity_def blockClassName_def isAsciiWhitespace_def)
qed

lemma block_hasSpinner:
  assumes "toolName t \<noteq> lit ''pause_execution''" and "renderInvocation env cb t = Inr block"
  shows "hasSpinner block \<longleftrightarrow> state t = Call"
proof -
  from block_shape [OF assms] obtain rows
    where rows: "list_all2 (\<lambda>entry row. paramRow env entry = Inr row) (entriesOf (args t)) rows"
      and block: "block =
        Element ''div'' ((cls (blockClassName (state t)))\<lparr>key := Some (toolCallId t)\<rparr>)
          [headerRow (capitalizeAndReplaceUnderscores (toUppercase env) (toolName t)) (state t),
           divider,
           bodyRow rows (imageSlot cb (state t) (result t))]" .
  have "\<not> hasSpinner (bodyRow rows (imageSlot cb (state t) (result t)))"
    using rows_plain(1) [OF rows]
    by (simp add: bodyRow_def hasSpinner_Element imageSlot_plain isAsciiWhitespace_def)
  then show ?thesis
    unfolding block
    by (simp add: hasSpinner_Element hasSpinner_headerRow divider_plain blockClassName_def
        isAsciiWhitespace_def)
qed

lemma block_hasCheckmark:
  assumes "toolName t \<noteq> lit ''pause_execution''" and "renderInvocation env cb t = Inr block"
  shows "hasCheckmark block \<longleftrightarrow> state t = Result"
proof -
  from block_shape [OF assms] obtain rows
    where rows: "list_all2 (\<lambda>entry row. paramRow env entry = Inr row) (entriesOf (args t)) rows"
      and block: "block =
        Element ''div'' ((cls (blockClassName (state t)))\<lparr>key := Some (toolCallId t)\<rparr>)
          [headerRow (capitalizeAndReplaceUnderscores (toUppercase env) (toolName t)) (state t),
           divider,
           bodyRow rows (imageSlot cb (state t) (result t))]" .
  have "\<not> hasCheckmark (bodyRow rows (imageSlot cb (state t) (result t)))"
    using rows_plain(2) [OF rows]
    by (simp add: bodyRow_def hasCheckmark_Element imageSlot_plain)
  then show ?thesis
    unfolding block
    by (simp add: hasCheckmark_Element hasCheckmark_headerRow divider_plain)
qed

lemma block_images_cases:
  assumes "toolName t \<noteq> lit ''pause_execution''" and "renderInvocation env cb t = Inr block"
  shows "images block =
     (if state t = Result then
        (case result t of
           None \<Rightarrow> []
         | Some r \<Rightarrow>
             (case imageResult r of
                None \<Rightarrow> []
              | Some img \<Rightarrow> (case source img of None \<Rightarrow> [] | Some s \<Rightarrow> [imagePreview cb r])))
      else [])"
proof -
  from block_shape [OF assms] obtain rows
    where rows: "list_all2 (\<lambda>entry row. paramRow env entry = Inr row) (entriesOf (args t)) rows"
      and block: "block =
        Element ''div'' ((cls (blockClassName (state t)))\<lparr>key := Some (toolCallId t)\<rparr>)
          [headerRow (capitalizeAndReplaceUnderscores (toUppercase env) (toolName t)) (state t),
           divider,
           bodyRow rows (imageSlot cb (state t) (result t))]" .
  have "images (bodyRow rows (imageSlot cb (state t) (result t))) =
      images (imageSlot cb (state t) (result t))"
    using rows_plain(3) [OF rows] by (simp add: bodyRow_def images_Element)
  then show ?thesis
    unfolding block
    by (simp add: images_Element images_headerRow divider_plain images_imageSlot
        images_imagePreview split: option.splits)
qed

lemma block_image_srcs:
  assumes "toolName t \<noteq> lit ''pause_execution''" and "renderInvocation env cb t = Inr block"
    and "state t = Result" and "result t = Some r"
  shows "map (\<lambda>e. src (attrs_of e)) (images block) =
     (case imageResult r of
        None \<Rightarrow> []
      | Some img \<Rightarrow> (case source img of None \<Rightarrow> [] | Some s \<Rightarrow> [Some (imageSrc s)]))"
  using assms(3,4)
  by (simp add: block_images_cases [OF assms(1,2)] imagePreview_src split: option.splits)

lemma block_titleTexts:
  assumes "toolName t \<noteq> lit ''pause_execution''" and "renderInvocation env cb t = Inr block"
  shows "titleTexts block = [capitalizeAndReplaceUnderscores (toUppercase env) (toolName t)]"
proof -
  from block_shape [OF assms] obtain rows
    where rows: "list_all2 (\<lambda>entry row. paramRow env entry = Inr row) (entriesOf (args t)) rows"
      and block: "block =
        Element ''div'' ((cls (blockClassName (state t)))\<lparr>key := Some (toolCallId t)\<rparr>)
          [headerRow (capitalizeAndReplaceUnderscores (toUppercase env) (toolName t)) (state t),
           divider,
           bodyRow rows (imageSlot cb (state t) (result t))]" .
  show ?thesis
    by (cases "state t") (simp_all add: block titleTexts_def headerRow_def statusIndicator_def)
qed

lemma block_parameterRows:
  assumes "toolName t \<noteq> lit ''pause_execution''" and "renderInvocation env cb t = Inr block"
  shows "list_all2 (\<lambda>entry row. paramRow env entry = Inr row)
           (entriesOf (args t)) (parameterRows block)"
proof -
  from block_shape [OF assms] obtain rows
    where rows: "list_all2 (\<lambda>entry row. paramRow env entry = Inr row) (entriesOf (args t)) rows"
      and block: "block =
        Element ''div'' ((cls (blockClassName (state t)))\<lparr>key := Some (toolCallId t)\<rparr>)
          [headerRow (capitalizeAndReplaceUnderscores (toUppercase env) (toolName t)) (state t),
           divider,
           bodyRow rows (imageSlot cb (state t) (result t))]" .
  show ?thesis
    using rows by (simp add: block parameterRows_def bodyRow_def)
qed

lemma block_rows_show:
  assumes "toolName t \<noteq> lit ''pause_execution''" and "renderInvocation env cb t = Inr block"
  shows "list_all2
           (\<lambda>(paramName, paramValue) row.
              key (attrs_of row) = Some paramName \<and>
              (\<exists>str. JS_String (numberToString env) paramValue = Inr str \<and>
                 texts row =
                   [capitalizeAndReplaceUnderscores (toUppercase env) paramName, str]))
           (entriesOf (args t)) (parameterRows block)"
  using block_parameterRows [OF assms]
  by (rule list_all2_mono) (auto simp: paramRow_Inr)

lemma example_nth:
  "exampleInvocations ! 0 = exampleCall" "exampleInvocations ! 1 = examplePause"
  "exampleInvocations ! 2 = exampleScreenshot" "exampleInvocations ! 3 = examplePartial"
  "exampleInvocations ! 4 = exampleBare" "length exampleInvocations = 5"
  by (simp_all add: exampleInvocations_def)

lemma example_props:
  "toolInvocations exampleProps = Some exampleInvocations"
  "onImageClick exampleProps = Some recordCall"
  by (simp_all add: exampleProps_def)

lemma example_names:
  "toolName exampleCall \<noteq> lit ''pause_execution''"
  "toolName examplePause = lit ''pause_execution''"
  "toolName exampleScreenshot \<noteq> lit ''pause_execution''"
  "toolName examplePartial \<noteq> lit ''pause_execution''"
  "toolName exampleBare \<noteq> lit ''pause_execution''"
  "toolName exampleDone \<noteq> lit ''pause_execution''"
  "toolName exampleMixed \<noteq> lit ''pause_execution''"
  "toolName exampleThrowing \<noteq> lit ''pause_execution''"
  by (simp_all add: exampleCall_def examplePause_def exampleScreenshot_def examplePartial_def
      exampleBare_def exampleDone_def exampleMixed_def exampleThrowing_def)

lemma example_convert:
  "valuesConvert sampleEngine exampleCall" "valuesConvert sampleEngine exampleScreenshot"
  "valuesConvert sampleEngine examplePartial" "valuesConvert sampleEngine exampleBare"
  "valuesConvert sampleEngine exampleDone" "valuesConvert sampleEngine exampleMixed"
  "\<not> valuesConvert sampleEngine exampleThrowing"
  by (simp_all add: valuesConvert_def exampleCall_def exampleScreenshot_def examplePartial_def
      exampleBare_def exampleDone_def exampleMixed_def exampleThrowing_def)

lemma example_returns: "returns (ToolInvocations sampleEngine exampleProps)"
  by (simp add: returns_ToolInvocations [OF example_props(1)] exampleInvocations_def
      example_names example_convert)

lemma example_block:
  assumes "i < length exampleInvocations"
    and "toolName (exampleInvocations ! i) \<noteq> lit ''pause_execution''"
  shows "renderedBlock sampleEngine exampleProps i
           (invocationNode sampleEngine (Some recordCall) (exampleInvocations ! i))"
  using renderedBlock_node [OF example_props(1) assms(1) example_returns assms(2)]
  by (simp add: example_props)

lemma single_block:
  assumes "toolName t \<noteq> lit ''pause_execution''" and "valuesConvert sampleEngine t"
  shows "renderedBlock sampleEngine \<lparr>toolInvocations = Some [t], onImageClick = Some recordCall\<rparr> 0
           (invocationNode sampleEngine (Some recordCall) t)"
proof -
  let ?props = "\<lparr>toolInvocations = Some [t], onImageClick = Some recordCall\<rparr>"
  have h: "toolInvocations ?props = Some [t]" and i: "0 < length [t]"
    by simp_all
  have r: "returns (ToolInvocations sampleEngine ?props)"
    by (simp add: returns_ToolInvocations [OF h] assms(2))
  show ?thesis
    using renderedBlock_node [OF h i r] assms(1) by simp
qed

lemma sample_eval_latin:
  "capitalizeAndReplaceUnderscores sampleUppercase ([0xE9] @ lit ''_x'') = [0xC9] @ lit '' x''"
  "capitalizeAndReplaceUnderscores sampleUppercase [0xDF] = lit ''SS''"
  by (simp_all add: capitalizeAndReplaceUnderscores_def replaceAll_def toUpperCase_def
      sampleUppercase_def codeUnits_def isLineTerminator_def ascii_def lit_simps)

lemma blocks_children:
  assumes "list_all2 (\<lambda>t n. renderInvocation env cb t = Inr n) ts nodes"
  shows "list_all2
           (\<lambda>t block. renderInvocation env cb t = Inr block \<and>
              tag block = Some ''div'' \<and> key (attrs_of block) = Some (toolCallId t))
           (filter (\<lambda>t. toolName t \<noteq> lit ''pause_execution'') ts)
           (filter (\<lambda>n. \<not> rendersNothing n) nodes)"
  using assms
proof (induction rule: list_all2_induct)
  case Nil
  then show ?case by simp
next
  case (Cons t ts n nodes)
  show ?case
  proof (cases "toolName t = lit ''pause_execution''")
    case True
    with Cons.hyps(1) have "n = NullNode"
      by (simp add: renderInvocation_pause)
    with True Cons.IH show ?thesis by simp
  next
    case False
    with Cons.hyps(1) Cons.IH show ?thesis
      by (simp add: block_key)
  qed
qed

lemma JS_String_elements_length:
  "JS_String_elements num xs = Inr strs \<Longrightarrow> length strs = length xs"
  by (induction xs arbitrary: strs) (auto split: sum.splits if_splits)

lemma JS_String_array_Cons:
  "JS_String num (JArr (x # y # ys)) =
     (case (if x = JUndefined \<or> x = JNull then Inr [] else JS_String num x) of
        Inl e \<Rightarrow> Inl e
      | Inr a \<Rightarrow>
          (case JS_String num (JArr (y # ys)) of
             Inl e \<Rightarrow> Inl e
           | Inr b \<Rightarrow> Inr (a @ lit '','' @ b)))"
proof (cases "JS_String_elements num (y # ys)")
  case (Inl e)
  then show ?thesis
    by (simp split: sum.splits)
next
  case (Inr strs)
  have "length strs = Suc (length ys)"
    using JS_String_elements_length [OF Inr] by simp
  then obtain s ss where "strs = s # ss"
    by (cases strs) simp_all
  with Inr show ?thesis
    by (simp split: sum.splits)
qed

subsection \<open>The display name\<close>

text \<open>
  Claim C3. For every string, \<open>capitalizeAndReplaceUnderscores\<close> should replace every
  underscore by a space and then put the first character of the result, and only it,
  in upper case. The regular expression of the code has no flag \<open>u\<close> and takes one code
  unit: on the name that begins with the letter \<open>U+10428\<close> it matches the high surrogate
  alone, which has no upper case, and returns the name with its first letter as it was,
  where the first character in upper case is \<open>U+10400\<close>. (Whenever a lone \<open>D801\<close> has no
  upper case and \<open>U+10428\<close> has the upper case \<open>U+10400\<close>, as in Unicode.)
\<close>

theorem capitalize_leaves_leading_surrogate_pair:
  assumes "up 0xD801 = [0xD801]" and "up 0x10428 = [0x10400]"
  shows "capitalizeAndReplaceUnderscores up deseretName = [0xD801, 0xDC28] @ lit '' x'' \<and>
         displayNameSpec up deseretName = [0xD801, 0xDC00] @ lit '' x'' \<and>
         capitalizeAndReplaceUnderscores up deseretName \<noteq> displayNameSpec up deseretName"
proof -
  have code: "capitalizeAndReplaceUnderscores up deseretName = [0xD801, 0xDC28] @ lit '' x''"
    using assms(1)
    by (simp add: capitalizeAndReplaceUnderscores_def deseretName_def replaceAll_def
        toUpperCase_def codeUnits_def isLineTerminator_def ascii_def lit_simps)
  have spec: "displayNameSpec up deseretName = [0xD801, 0xDC00] @ lit '' x''"
    using assms(2)
    by (simp add: displayNameSpec_def deseretName_def underscoresToSpaces_def
        toUpperCase_def codeUnits_def isHighSurrogate_def isLowSurrogate_def ascii_def lit_simps)
  have "[0xD801, 0xDC28] @ lit '' x'' \<noteq> [0xD801, 0xDC00 :: code_unit] @ lit '' x''"
    by simp
  with code spec show ?thesis by simp
qed

theorem capitalize_leaves_leading_surrogate_pair_witness:
  "sampleUppercase 0xD801 = [0xD801] \<and> sampleUppercase 0x10428 = [0x10400] \<and>
   capitalizeAndReplaceUnderscores sampleUppercase deseretName = [0xD801, 0xDC28] @ lit '' x'' \<and>
   displayNameSpec sampleUppercase deseretName = [0xD801, 0xDC00] @ lit '' x''"
proof -
  have lone: "sampleUppercase 0xD801 = [0xD801]"
    and pair: "sampleUppercase 0x10428 = [0x10400]"
    by (simp_all add: sampleUppercase_def)
  from capitalize_leaves_leading_surrogate_pair [OF lone pair] lone pair
  show ?thesis by simp
qed

subsection \<open>Filtering\<close>

text \<open>
  Claim C4, as stated: an invocation whose tool name is \<open>pause_execution\<close> produces no
  visual block, and every other invocation produces exactly one. The second half fails
  when \<open>String\<close> throws on a parameter value: the render of the list that holds the one
  invocation \<open>click\<close> with the arguments \<open>{opts: {toString: "a"}}\<close> throws a
  \<open>TypeError\<close>, and there is no container and no block for it.
\<close>

theorem one_block_each_counterexample:
  "toolName exampleThrowing \<noteq> lit ''pause_execution'' \<and>
   ToolInvocations sampleEngine
     \<lparr>toolInvocations = Some [exampleThrowing], onImageClick = Some recordCall\<rparr> =
     Inl TypeError \<and>
   childAt
     (ToolInvocations sampleEngine
        \<lparr>toolInvocations = Some [exampleThrowing], onImageClick = Some recordCall\<rparr>) 0 = None"
proof -
  let ?props = "\<lparr>toolInvocations = Some [exampleThrowing], onImageClick = Some recordCall\<rparr>"
  have h: "toolInvocations ?props = Some [exampleThrowing]"
    by simp
  have "\<not> returns (ToolInvocations sampleEngine ?props)"
    by (simp add: returns_ToolInvocations [OF h] example_names example_convert)
  then have "ToolInvocations sampleEngine ?props = Inl TypeError"
    by (simp add: not_returns_iff)
  then show ?thesis
    by (simp add: example_names childAt_def)
qed

text \<open>
  Claim C4, amended. An invocation whose tool name is \<open>pause_execution\<close> produces no
  visual block, whatever its state, arguments and result. The render returns exactly
  when the string conversion of every parameter value of every other invocation
  succeeds, and otherwise throws a \<open>TypeError\<close>. When it returns, the container has one
  child per invocation, \<open>null\<close> at the place of a \<open>pause_execution\<close>; every other
  invocation has exactly one block, and the blocks stand in the order of the input,
  each being the element rendered for its invocation with its \<open>toolCallId\<close> as key.
\<close>

theorem pause_execution_skipped:
  assumes "toolInvocations props = Some ts"
  shows "(\<forall>i<length ts. toolName (ts ! i) = lit ''pause_execution'' \<longrightarrow>
            (\<forall>block. \<not> renderedBlock env props i block)) \<and>
         (returns (ToolInvocations env props) \<longleftrightarrow>
            list_all (\<lambda>t. toolName t = lit ''pause_execution'' \<or> valuesConvert env t) ts) \<and>
         (\<not> returns (ToolInvocations env props) \<longrightarrow>
            ToolInvocations env props = Inl TypeError) \<and>
         (\<forall>root. ToolInvocations env props = Inr root \<longrightarrow>
            length (children root) = length ts \<and>
            (\<forall>i<length ts. toolName (ts ! i) = lit ''pause_execution'' \<longrightarrow>
               children root ! i = NullNode) \<and>
            (\<forall>i<length ts. toolName (ts ! i) \<noteq> lit ''pause_execution'' \<longrightarrow>
               (\<exists>!block. renderedBlock env props i block)) \<and>
            list_all2
              (\<lambda>t block. renderInvocation env (onImageClick props) t = Inr block \<and>
                 tag block = Some ''div'' \<and> key (attrs_of block) = Some (toolCallId t))
              (filter (\<lambda>t. toolName t \<noteq> lit ''pause_execution'') ts)
              (blocks root))"
proof (intro conjI allI impI)
  fix i block
  assume "i < length ts" and "toolName (ts ! i) = lit ''pause_execution''"
  then show "\<not> renderedBlock env props i block"
    by (simp add: renderedBlock_iff [OF assms])
next
  show "returns (ToolInvocations env props) \<longleftrightarrow>
      list_all (\<lambda>t. toolName t = lit ''pause_execution'' \<or> valuesConvert env t) ts"
    by (rule returns_ToolInvocations [OF assms])
next
  assume "\<not> returns (ToolInvocations env props)"
  then show "ToolInvocations env props = Inl TypeError"
    by (simp add: not_returns_iff)
next
  fix root
  assume out: "ToolInvocations env props = Inr root"
  then obtain children'
    where all: "list_all2 (\<lambda>t n. renderInvocation env (onImageClick props) t = Inr n) ts children'"
      and root: "root = Element ''div'' (cls ''flex w-full flex-col gap-2'') children'"
    unfolding ToolInvocations_Inr_iff [OF assms] by (elim exE conjE)
  have ret: "returns (ToolInvocations env props)"
    by (simp add: out)
  show "length (children root) = length ts"
    using all by (simp add: root list_all2_lengthD)
  show "list_all2
      (\<lambda>t block. renderInvocation env (onImageClick props) t = Inr block \<and>
         tag block = Some ''div'' \<and> key (attrs_of block) = Some (toolCallId t))
      (filter (\<lambda>t. toolName t \<noteq> lit ''pause_execution'') ts)
      (blocks root)"
    using blocks_children [OF all] by (simp add: blocks_def root)
  {
    fix i
    assume i: "i < length ts"
    from all i have at: "renderInvocation env (onImageClick props) (ts ! i) = Inr (children' ! i)"
      by (simp add: list_all2_conv_all_nth)
    {
      assume "toolName (ts ! i) = lit ''pause_execution''"
      with at show "children root ! i = NullNode"
        by (simp add: root renderInvocation_pause)
    }
    {
      assume "toolName (ts ! i) \<noteq> lit ''pause_execution''"
      with at ret show "\<exists>!block. renderedBlock env props i block"
        by (simp add: renderedBlock_iff [OF assms i])
    }
  }
qed

theorem pause_execution_skipped_witness:
  "toolInvocations exampleProps = Some exampleInvocations \<and>
   returns (ToolInvocations sampleEngine exampleProps) \<and>
   (\<exists>root. ToolInvocations sampleEngine exampleProps = Inr root \<and>
      length (children root) = 5 \<and>
      children root ! 1 = NullNode \<and>
      (\<forall>block. \<not> renderedBlock sampleEngine exampleProps 1 block) \<and>
      (\<exists>!block. renderedBlock sampleEngine exampleProps 0 block) \<and>
      map (\<lambda>block. key (attrs_of block)) (blocks root) =
        [Some (lit ''call_1''), Some (lit ''call_3''), Some (lit ''call_4''),
         Some (lit ''call_5'')])"
proof -
  have h: "toolInvocations exampleProps = Some exampleInvocations"
    by (rule example_props)
  note general = pause_execution_skipped [OF h, of sampleEngine]
  have pause: "\<forall>i<length exampleInvocations.
      toolName (exampleInvocations ! i) = lit ''pause_execution'' \<longrightarrow>
      (\<forall>block. \<not> renderedBlock sampleEngine exampleProps i block)"
    using general by (rule conjunct1)
  have ret: "returns (ToolInvocations sampleEngine exampleProps)"
    using general [THEN conjunct2, THEN conjunct1]
    by (simp add: exampleInvocations_def example_names example_convert)
  then obtain root where root: "ToolInvocations sampleEngine exampleProps = Inr root"
    by (cases "ToolInvocations sampleEngine exampleProps") simp_all
  from general [THEN conjunct2, THEN conjunct2, THEN conjunct2, rule_format, OF root]
  have len: "length (children root) = length exampleInvocations"
    and skipped: "\<forall>i<length exampleInvocations.
        toolName (exampleInvocations ! i) = lit ''pause_execution'' \<longrightarrow>
        children root ! i = NullNode"
    and one: "\<forall>i<length exampleInvocations.
        toolName (exampleInvocations ! i) \<noteq> lit ''pause_execution'' \<longrightarrow>
        (\<exists>!block. renderedBlock sampleEngine exampleProps i block)"
    and ordered: "list_all2
        (\<lambda>t block. renderInvocation sampleEngine (onImageClick exampleProps) t = Inr block \<and>
           tag block = Some ''div'' \<and> key (attrs_of block) = Some (toolCallId t))
        (filter (\<lambda>t. toolName t \<noteq> lit ''pause_execution'') exampleInvocations)
        (blocks root)"
    by simp_all
  have len5: "length (children root) = 5"
    using len by (simp add: example_nth)
  have second: "children root ! 1 = NullNode"
    using skipped [rule_format, of 1] by (simp add: exampleInvocations_def example_names)
  have second': "\<forall>block. \<not> renderedBlock sampleEngine exampleProps 1 block"
    using pause [rule_format, of 1] by (simp add: exampleInvocations_def example_names)
  have first: "\<exists>!block. renderedBlock sampleEngine exampleProps 0 block"
    using one [rule_format, of 0] by (simp add: exampleInvocations_def example_names)
  have kept: "filter (\<lambda>t. toolName t \<noteq> lit ''pause_execution'') exampleInvocations =
      [exampleCall, exampleScreenshot, examplePartial, exampleBare]"
    by (simp add: exampleInvocations_def example_names)
  have "list_all2 (\<lambda>t block. key (attrs_of block) = Some (toolCallId t))
      [exampleCall, exampleScreenshot, examplePartial, exampleBare] (blocks root)"
    using ordered unfolding kept by (rule list_all2_mono) simp
  then have keys: "map (\<lambda>block. key (attrs_of block)) (blocks root) =
      [Some (lit ''call_1''), Some (lit ''call_3''), Some (lit ''call_4''),
       Some (lit ''call_5'')]"
    by (auto simp: list_all2_Cons1 exampleCall_def exampleScreenshot_def examplePartial_def
        exampleBare_def)
  have "\<exists>root. ToolInvocations sampleEngine exampleProps = Inr root \<and>
      length (children root) = 5 \<and>
      children root ! 1 = NullNode \<and>
      (\<forall>block. \<not> renderedBlock sampleEngine exampleProps 1 block) \<and>
      (\<exists>!block. renderedBlock sampleEngine exampleProps 0 block) \<and>
      map (\<lambda>block. key (attrs_of block)) (blocks root) =
        [Some (lit ''call_1''), Some (lit ''call_3''), Some (lit ''call_4''),
         Some (lit ''call_5'')]"
    by (rule exI [of _ root]) (intro conjI root len5 second second' first keys)
  with h ret show ?thesis by (intro conjI)
qed

subsection \<open>The status indicator\<close>

text \<open>
  Claim C5. The rendered block of an invocation in state \<open>call\<close> carries the
  reduced-opacity class and the spinner, and no checkmark; the rendered block of an
  invocation in state \<open>result\<close> carries the checkmark and not the reduced-opacity class.
\<close>

theorem call_spinner_result_checkmark:
  assumes "toolInvocations props = Some ts" and "i < length ts"
    and "renderedBlock env props i block"
  shows "(state (ts ! i) = Call \<longrightarrow>
            reducedOpacity block \<and> hasSpinner block \<and> \<not> hasCheckmark block) \<and>
         (state (ts ! i) = Result \<longrightarrow> hasCheckmark block \<and> \<not> reducedOpacity block)"
proof -
  from assms have name: "toolName (ts ! i) \<noteq> lit ''pause_execution''"
    and block: "renderInvocation env (onImageClick props) (ts ! i) = Inr block"
    by (simp_all add: renderedBlock_iff)
  show ?thesis
    by (simp add: block_reducedOpacity [OF name block] block_hasSpinner [OF name block]
        block_hasCheckmark [OF name block])
qed

theorem call_spinner_result_checkmark_witness:
  "toolInvocations exampleProps = Some exampleInvocations \<and>
   0 < length exampleInvocations \<and> 2 < length exampleInvocations \<and>
   renderedBlock sampleEngine exampleProps 0
     (invocationNode sampleEngine (Some recordCall) exampleCall) \<and>
   renderedBlock sampleEngine exampleProps 2
     (invocationNode sampleEngine (Some recordCall) exampleScreenshot) \<and>
   state (exampleInvocations ! 0) = Call \<and> state (exampleInvocations ! 2) = Result \<and>
   reducedOpacity (invocationNode sampleEngine (Some recordCall) exampleCall) \<and>
   hasSpinner (invocationNode sampleEngine (Some recordCall) exampleCall) \<and>
   \<not> hasCheckmark (invocationNode sampleEngine (Some recordCall) exampleCall) \<and>
   hasCheckmark (invocationNode sampleEngine (Some recordCall) exampleScreenshot) \<and>
   \<not> reducedOpacity (invocationNode sampleEngine (Some recordCall) exampleScreenshot)"
proof -
  let ?b0 = "invocationNode sampleEngine (Some recordCall) exampleCall"
  let ?b2 = "invocationNode sampleEngine (Some recordCall) exampleScreenshot"
  have h: "toolInvocations exampleProps = Some exampleInvocations"
    by (rule example_props)
  have i0: "0 < length exampleInvocations" and i2: "2 < length exampleInvocations"
    by (simp_all add: example_nth)
  have b0: "renderedBlock sampleEngine exampleProps 0 ?b0"
    using example_block [of 0] by (simp add: example_nth example_names)
  have b2: "renderedBlock sampleEngine exampleProps 2 ?b2"
    using example_block [of 2] by (simp add: example_nth example_names)
  have s0: "state (exampleInvocations ! 0) = Call"
    by (simp add: example_nth exampleCall_def)
  have s2: "state (exampleInvocations ! 2) = Result"
    by (simp add: example_nth exampleScreenshot_def)
  from call_spinner_result_checkmark [OF h i0 b0] s0
  have first: "reducedOpacity ?b0 \<and> hasSpinner ?b0 \<and> \<not> hasCheckmark ?b0"
    by simp
  from call_spinner_result_checkmark [OF h i2 b2] s2
  have third: "hasCheckmark ?b2 \<and> \<not> reducedOpacity ?b2"
    by simp
  from h i0 i2 b0 b2 s0 s2 first third show ?thesis by simp
qed

text \<open>
  Claim C6. The rendered block of an invocation in state \<open>partial-call\<close> carries
  neither the spinner nor the checkmark, and the reduced-opacity class is not applied:
  a block has that class exactly when the state is \<open>call\<close>.
\<close>

theorem partial_call_no_indicator:
  assumes "toolInvocations props = Some ts" and "i < length ts"
    and "renderedBlock env props i block"
  shows "(state (ts ! i) = PartialCall \<longrightarrow>
            \<not> hasSpinner block \<and> \<not> hasCheckmark block \<and> \<not> reducedOpacity block) \<and>
         (reducedOpacity block \<longleftrightarrow> state (ts ! i) = Call)"
proof -
  from assms have name: "toolName (ts ! i) \<noteq> lit ''pause_execution''"
    and block: "renderInvocation env (onImageClick props) (ts ! i) = Inr block"
    by (simp_all add: renderedBlock_iff)
  show ?thesis
    by (simp add: block_reducedOpacity [OF name block] block_hasSpinner [OF name block]
        block_hasCheckmark [OF name block])
qed

theorem partial_call_no_indicator_witness:
  "toolInvocations exampleProps = Some exampleInvocations \<and> 3 < length exampleInvocations \<and>
   renderedBlock sampleEngine exampleProps 3
     (invocationNode sampleEngine (Some recordCall) examplePartial) \<and>
   state (exampleInvocations ! 3) = PartialCall \<and>
   \<not> hasSpinner (invocationNode sampleEngine (Some recordCall) examplePartial) \<and>
   \<not> hasCheckmark (invocationNode sampleEngine (Some recordCall) examplePartial) \<and>
   \<not> reducedOpacity (invocationNode sampleEngine (Some recordCall) examplePartial)"
proof -
  let ?b3 = "invocationNode sampleEngine (Some recordCall) examplePartial"
  have h: "toolInvocations exampleProps = Some exampleInvocations"
    by (rule example_props)
  have i3: "3 < length exampleInvocations"
    by (simp add: example_nth)
  have b3: "renderedBlock sampleEngine exampleProps 3 ?b3"
    using example_block [of 3] by (simp add: example_nth example_names)
  have s3: "state (exampleInvocations ! 3) = PartialCall"
    by (simp add: example_nth examplePartial_def)
  from partial_call_no_indicator [OF h i3 b3] s3
  have "\<not> hasSpinner ?b3 \<and> \<not> hasCheckmark ?b3 \<and> \<not> reducedOpacity ?b3"
    by simp
  with h i3 b3 s3 show ?thesis by simp
qed

subsection \<open>The argument list\<close>

text \<open>
  Claim C7, as stated: for every invocation the body renders one parameter row per
  entry of \<open>args\<close>, the value converted by \<open>String\<close>, and no exception is raised. It fails
  on a value on which \<open>String\<close> throws: the invocation \<open>click\<close> has the one entry
  \<open>opts\<close> with the value \<open>{toString: "a"}\<close>, the conversion of that value throws a
  \<open>TypeError\<close>, and so does the render of a list that holds the invocation: no row is
  rendered.
\<close>

theorem parameter_rows_counterexample:
  "entriesOf (args exampleThrowing) = [(lit ''opts'', JObj [(lit ''toString'', JStr (lit ''a''))])] \<and>
   JS_String (numberToString sampleEngine) (JObj [(lit ''toString'', JStr (lit ''a''))]) =
     Inl TypeError \<and>
   renderInvocation sampleEngine (Some recordCall) exampleThrowing = Inl TypeError \<and>
   ToolInvocations sampleEngine
     \<lparr>toolInvocations = Some [exampleCall, exampleThrowing], onImageClick = Some recordCall\<rparr> =
     Inl TypeError"
proof -
  let ?props =
    "\<lparr>toolInvocations = Some [exampleCall, exampleThrowing], onImageClick = Some recordCall\<rparr>"
  have h: "toolInvocations ?props = Some [exampleCall, exampleThrowing]"
    by simp
  have "\<not> returns (ToolInvocations sampleEngine ?props)"
    by (simp add: returns_ToolInvocations [OF h] example_names example_convert)
  then have all: "ToolInvocations sampleEngine ?props = Inl TypeError"
    by (simp add: not_returns_iff)
  have "\<not> returns (renderInvocation sampleEngine (Some recordCall) exampleThrowing)"
    by (simp add: returns_renderInvocation example_names example_convert)
  then have one: "renderInvocation sampleEngine (Some recordCall) exampleThrowing = Inl TypeError"
    by (simp add: not_returns_iff)
  have "entriesOf (args exampleThrowing) =
      [(lit ''opts'', JObj [(lit ''toString'', JStr (lit ''a''))])]"
    by (simp add: exampleThrowing_def)
  moreover have "JS_String (numberToString sampleEngine) (JObj [(lit ''toString'', JStr (lit ''a''))]) =
      Inl TypeError"
    by simp
  ultimately show ?thesis
    using all one by (intro conjI)
qed

text \<open>
  Claim C7, amended. The body of a rendered block holds one parameter row per entry of
  \<open>args\<close>, in the order of \<open>Object.entries\<close>; a row is keyed by the parameter name and
  shows the formatted name and the value converted by \<open>String\<close>. When \<open>args\<close> is
  \<open>undefined\<close>, \<open>null\<close> or the empty object there is no row, and rendering the invocation
  raises no exception. \<open>String\<close> gives \<open>undefined\<close>, \<open>null\<close>, \<open>true\<close> and \<open>false\<close> by name,
  a number as the engine prints it, a string as it is, an array as its converted
  elements joined by commas (with \<open>undefined\<close> and \<open>null\<close> elements empty), and a plain
  object as \<open>[object Object]\<close>, unless the object has an own property \<open>toString\<close>: then,
  also inside an array, it throws a \<open>TypeError\<close>. The render returns exactly when
  \<open>String\<close> succeeds on every parameter value of every invocation that is not
  \<open>pause_execution\<close>, and otherwise throws that \<open>TypeError\<close>.
\<close>

theorem parameter_rows_of_args:
  fixes cb :: "(jsstring \<Rightarrow> 's \<Rightarrow> 's) option" and props :: "('n, 's) ToolRenderProps"
  shows
   "(toolInvocations props = Some ts \<and> i < length ts \<and> renderedBlock env props i block \<longrightarrow>
      list_all2
        (\<lambda>(paramName, paramValue) row.
           key (attrs_of row) = Some paramName \<and>
           (\<exists>str. JS_String (numberToString env) paramValue = Inr str \<and>
              texts row = [capitalizeAndReplaceUnderscores (toUppercase env) paramName, str]))
        (entriesOf (args (ts ! i))) (parameterRows block) \<and>
      (args (ts ! i) = ArgsUndefined \<or> args (ts ! i) = ArgsNull \<or>
       args (ts ! i) = ArgsObject [] \<longrightarrow> parameterRows block = [])) \<and>
    (args t = ArgsUndefined \<or> args t = ArgsNull \<or> args t = ArgsObject [] \<longrightarrow>
       returns (renderInvocation env cb t)) \<and>
    (toolInvocations props = Some ts \<longrightarrow>
       (returns (ToolInvocations env props) \<longleftrightarrow>
          list_all (\<lambda>t. toolName t = lit ''pause_execution'' \<or> valuesConvert env t) ts)) \<and>
    (\<not> returns (ToolInvocations env props) \<longrightarrow> ToolInvocations env props = Inl TypeError) \<and>
    JS_String (numberToString env) JUndefined = Inr (lit ''undefined'') \<and>
    JS_String (numberToString env) JNull = Inr (lit ''null'') \<and>
    JS_String (numberToString env) (JBool True) = Inr (lit ''true'') \<and>
    JS_String (numberToString env) (JBool False) = Inr (lit ''false'') \<and>
    JS_String (numberToString env) (JNum n) = Inr (numberToString env n) \<and>
    JS_String (numberToString env) (JStr str) = Inr str \<and>
    JS_String (numberToString env) (JObj kvs) =
      (if lit ''toString'' \<in> set (map fst kvs) then Inl TypeError
       else Inr (lit ''[object Object]'')) \<and>
    JS_String (numberToString env) (JArr []) = Inr [] \<and>
    JS_String (numberToString env) (JArr [x]) =
      (if x = JUndefined \<or> x = JNull then Inr [] else JS_String (numberToString env) x) \<and>
    JS_String (numberToString env) (JArr (x # y # ys)) =
      (case (if x = JUndefined \<or> x = JNull then Inr []
             else JS_String (numberToString env) x) of
         Inl e \<Rightarrow> Inl e
       | Inr a \<Rightarrow>
           (case JS_String (numberToString env) (JArr (y # ys)) of
              Inl e \<Rightarrow> Inl e
            | Inr b \<Rightarrow> Inr (a @ lit '','' @ b)))"
proof -
  have rows: "list_all2
        (\<lambda>(paramName, paramValue) row.
           key (attrs_of row) = Some paramName \<and>
           (\<exists>str. JS_String (numberToString env) paramValue = Inr str \<and>
              texts row = [capitalizeAndReplaceUnderscores (toUppercase env) paramName, str]))
        (entriesOf (args (ts ! i))) (parameterRows block) \<and>
      (args (ts ! i) = ArgsUndefined \<or> args (ts ! i) = ArgsNull \<or>
       args (ts ! i) = ArgsObject [] \<longrightarrow> parameterRows block = [])"
    if "toolInvocations props = Some ts \<and> i < length ts \<and> renderedBlock env props i block"
  proof -
    from that have name: "toolName (ts ! i) \<noteq> lit ''pause_execution''"
      and block: "renderInvocation env (onImageClick props) (ts ! i) = Inr block"
      by (auto simp: renderedBlock_iff)
    note shown = block_rows_show [OF name block]
    moreover have "parameterRows block = []"
      if "args (ts ! i) = ArgsUndefined \<or> args (ts ! i) = ArgsNull \<or> args (ts ! i) = ArgsObject []"
    proof -
      from that have "entriesOf (args (ts ! i)) = []" by auto
      with shown show ?thesis by simp
    qed
    ultimately show ?thesis by simp
  qed
  have safe: "returns (renderInvocation env cb t)"
    if "args t = ArgsUndefined \<or> args t = ArgsNull \<or> args t = ArgsObject []"
  proof -
    from that have "entriesOf (args t) = []" by auto
    then show ?thesis
      by (simp add: returns_renderInvocation valuesConvert_def)
  qed
  have ret: "returns (ToolInvocations env props) \<longleftrightarrow>
      list_all (\<lambda>t. toolName t = lit ''pause_execution'' \<or> valuesConvert env t) ts"
    if "toolInvocations props = Some ts"
    using that by (rule returns_ToolInvocations)
  have thrown: "\<not> returns (ToolInvocations env props) \<longrightarrow>
      ToolInvocations env props = Inl TypeError"
    by (simp add: not_returns_iff)
  have single: "JS_String (numberToString env) (JArr [x]) =
      (if x = JUndefined \<or> x = JNull then Inr [] else JS_String (numberToString env) x)"
    by (simp split: sum.splits)
  show ?thesis
    apply (intro conjI impI)
                   apply (rule rows [THEN conjunct1], assumption)
                  apply (rule rows [THEN conjunct2, rule_format], assumption, assumption)
                 apply (rule safe, assumption)
                apply (rule ret, assumption)
               apply (rule thrown [rule_format], assumption)
              apply simp
             apply simp
            apply simp
           apply simp
          apply simp
         apply simp
        apply simp
       apply simp
      apply (rule single)
     apply (rule JS_String_array_Cons)
    done
qed

theorem parameter_rows_of_args_witness:
  "toolInvocations \<lparr>toolInvocations = Some [exampleMixed], onImageClick = Some recordCall\<rparr> =
     Some [exampleMixed] \<and>
   0 < length [exampleMixed] \<and>
   renderedBlock sampleEngine
     \<lparr>toolInvocations = Some [exampleMixed], onImageClick = Some recordCall\<rparr> 0
     (invocationNode sampleEngine (Some recordCall) exampleMixed) \<and>
   map texts (parameterRows (invocationNode sampleEngine (Some recordCall) exampleMixed)) =
     [[lit ''Tags'', lit ''1,,a,true,,[object Object]''],
      [lit ''Opts'', lit ''[object Object]''],
      [lit ''Note'', lit ''hi'']] \<and>
   map (\<lambda>row. key (attrs_of row))
     (parameterRows (invocationNode sampleEngine (Some recordCall) exampleMixed)) =
     [Some (lit ''tags''), Some (lit ''opts''), Some (lit ''note'')] \<and>
   toolInvocations exampleProps = Some exampleInvocations \<and> 2 < length exampleInvocations \<and>
   renderedBlock sampleEngine exampleProps 2
     (invocationNode sampleEngine (Some recordCall) exampleScreenshot) \<and>
   args (exampleInvocations ! 2) = ArgsUndefined \<and>
   parameterRows (invocationNode sampleEngine (Some recordCall) exampleScreenshot) = [] \<and>
   returns (renderInvocation sampleEngine (Some recordCall) exampleScreenshot) \<and>
   returns (ToolInvocations sampleEngine exampleProps)"
proof -
  let ?props = "\<lparr>toolInvocations = Some [exampleMixed], onImageClick = Some recordCall\<rparr>"
  let ?b0 = "invocationNode sampleEngine (Some recordCall) exampleMixed"
  let ?b2 = "invocationNode sampleEngine (Some recordCall) exampleScreenshot"
  have h0: "toolInvocations ?props = Some [exampleMixed]"
    and i0: "0 < length [exampleMixed]"
    by simp_all
  have b0: "renderedBlock sampleEngine ?props 0 ?b0"
    by (rule single_block) (simp_all add: example_names example_convert)
  have e0: "entriesOf (args ([exampleMixed] ! 0)) =
      [(lit ''tags'',
        JArr [JNum (lit ''1''), JNull, JStr (lit ''a''), JArr [JBool True, JUndefined], JObj []]),
       (lit ''opts'', JObj [(lit ''deep'', JBool False)]),
       (lit ''note'', JStr (lit ''hi''))]"
    by (simp add: exampleMixed_def)
  have h: "toolInvocations exampleProps = Some exampleInvocations"
    by (rule example_props)
  have i2: "2 < length exampleInvocations"
    by (simp add: example_nth)
  have b2: "renderedBlock sampleEngine exampleProps 2 ?b2"
    using example_block [of 2] by (simp add: example_nth example_names)
  have a2: "args (exampleInvocations ! 2) = ArgsUndefined"
    and a2': "args exampleScreenshot = ArgsUndefined"
    by (simp_all add: example_nth exampleScreenshot_def)
  note mixed = parameter_rows_of_args
    [of ?props "[exampleMixed]" 0 sampleEngine ?b0, THEN conjunct1, rule_format,
     OF conjI [OF h0 conjI [OF i0 b0]], THEN conjunct1]
  have rows: "map texts (parameterRows ?b0) =
      [[lit ''Tags'', lit ''1,,a,true,,[object Object]''],
       [lit ''Opts'', lit ''[object Object]''],
       [lit ''Note'', lit ''hi'']] \<and>
      map (\<lambda>row. key (attrs_of row)) (parameterRows ?b0) =
      [Some (lit ''tags''), Some (lit ''opts''), Some (lit ''note'')]"
    using mixed unfolding e0
    by (auto simp: list_all2_Cons1 sample_eval sampleEngine_def printNumber_def
        lit_append [symmetric])
  note shot = parameter_rows_of_args
    [of exampleProps exampleInvocations 2 sampleEngine ?b2 exampleScreenshot "Some recordCall"]
  have none: "parameterRows ?b2 = []"
    using shot [THEN conjunct1, rule_format, OF conjI [OF h conjI [OF i2 b2]], THEN conjunct2]
      a2
    by simp
  have safe: "returns (renderInvocation sampleEngine (Some recordCall) exampleScreenshot)"
    using shot [THEN conjunct2, THEN conjunct1] a2' by simp
  have ret: "returns (ToolInvocations sampleEngine exampleProps)"
    using shot [THEN conjunct2, THEN conjunct2, THEN conjunct1, rule_format, OF h]
    by (simp add: exampleInvocations_def example_names example_convert)
  show ?thesis
    by (intro conjI h0 i0 b0 rows [THEN conjunct1] rows [THEN conjunct2] h i2 b2 a2 none
        safe ret)
qed

subsection \<open>The absent list\<close>

text \<open>
  Claim C9. When the prop \<open>toolInvocations\<close> is absent the component returns \<open>null\<close>:
  it renders nothing, not even the empty container that the empty list gives, and it
  raises no exception. The output holds no click handler, so the callback is not
  invoked: a click reaches nothing and leaves the host state as it is.
\<close>

theorem absent_invocations_render_null:
  fixes cb :: "(jsstring \<Rightarrow> 's \<Rightarrow> 's) option" and w :: 's
  shows
    "ToolInvocations env \<lparr>toolInvocations = None, onImageClick = cb\<rparr> = Inr NullNode \<and>
     ToolInvocations env \<lparr>toolInvocations = Some [], onImageClick = cb\<rparr> =
       Inr (Element ''div'' (cls ''flex w-full flex-col gap-2'') []) \<and>
     ToolInvocations env \<lparr>toolInvocations = None, onImageClick = cb\<rparr> \<noteq>
       ToolInvocations env \<lparr>toolInvocations = Some [], onImageClick = cb\<rparr> \<and>
     rendersNothing (NullNode :: 's vnode) \<and>
     clickHandlers (NullNode :: 's vnode) = [] \<and>
     click (NullNode :: 's vnode) w = w"
  by (simp add: ToolInvocations_def clickHandlers_def click_def no_attrs_def)

subsection \<open>The image\<close>

text \<open>
  Claim C1. For an invocation in state \<open>result\<close> whose selected image result has a
  source with media type \<open>m\<close> and data \<open>d\<close>, the rendered block shows one image, its
  \<open>src\<close> is exactly \<open>data:\<close> followed by \<open>m\<close>, \<open>;base64,\<close> and \<open>d\<close>, and a click on
  it calls \<open>onImageClick\<close> with exactly that string (and does nothing when no callback
  was given).
\<close>

theorem image_data_uri:
  assumes "toolInvocations props = Some ts" and "i < length ts"
    and "renderedBlock env props i block"
    and "state (ts ! i) = Result" and "result (ts ! i) = Some r"
    and "imageResult r = Some img" and "source img = Some s"
    and "media_type s = Some m" and "data s = Some d"
  shows "\<exists>image.
           images block = [image] \<and>
           src (attrs_of image) = Some (lit ''data:'' @ m @ lit '';base64,'' @ d) \<and>
           (\<forall>f w. onImageClick props = Some f \<longrightarrow>
              click image w = f (lit ''data:'' @ m @ lit '';base64,'' @ d) w) \<and>
           (\<forall>w. onImageClick props = None \<longrightarrow> click image w = w)"
proof -
  let ?cb = "onImageClick props"
  let ?image = "imagePreview ?cb r"
  from assms(1-3) have name: "toolName (ts ! i) \<noteq> lit ''pause_execution''"
    and block: "renderInvocation env ?cb (ts ! i) = Inr block"
    by (simp_all add: renderedBlock_iff)
  have uri: "imageSrc s = lit ''data:'' @ m @ lit '';base64,'' @ d"
    using assms(8,9) by (simp add: imageSrc_def)
  have one: "images block = [?image]"
    using assms(4-7) by (simp add: block_images_cases [OF name block])
  have shown: "src (attrs_of ?image) = Some (lit ''data:'' @ m @ lit '';base64,'' @ d)"
    by (simp only: imagePreview_src [OF assms(6,7)] uri)
  have calls: "\<forall>f w. ?cb = Some f \<longrightarrow>
      click ?image w = f (lit ''data:'' @ m @ lit '';base64,'' @ d) w"
    by (simp add: imagePreview_click [OF assms(6,7)] uri)
  have idle: "\<forall>w. ?cb = None \<longrightarrow> click ?image w = w"
    by (simp add: imagePreview_click [OF assms(6,7)])
  show ?thesis
    by (rule exI [of _ ?image]) (intro conjI one shown calls idle)
qed

theorem image_data_uri_witness:
  "toolInvocations exampleProps = Some exampleInvocations \<and> 2 < length exampleInvocations \<and>
   renderedBlock sampleEngine exampleProps 2
     (invocationNode sampleEngine (Some recordCall) exampleScreenshot) \<and>
   state (exampleInvocations ! 2) = Result \<and>
   result (exampleInvocations ! 2) =
     Some (ResultArray
       [\<lparr>type = lit ''text'', source = None\<rparr>,
        \<lparr>type = lit ''image'',
         source = Some \<lparr>media_type = Some (lit ''image/png''), data = Some (lit ''AAAA'')\<rparr>\<rparr>]) \<and>
   onImageClick exampleProps = Some recordCall \<and>
   (\<exists>image.
      images (invocationNode sampleEngine (Some recordCall) exampleScreenshot) = [image] \<and>
      src (attrs_of image) = Some (lit ''data:image/png;base64,AAAA'') \<and>
      click image [] = [lit ''data:image/png;base64,AAAA''])"
proof -
  let ?block = "invocationNode sampleEngine (Some recordCall) exampleScreenshot"
  let ?s = "\<lparr>media_type = Some (lit ''image/png''), data = Some (lit ''AAAA'')\<rparr>"
  let ?img = "\<lparr>type = lit ''image'', source = Some ?s\<rparr>"
  let ?r = "ResultArray [\<lparr>type = lit ''text'', source = None\<rparr>, ?img]"
  have h: "toolInvocations exampleProps = Some exampleInvocations"
    and cb: "onImageClick exampleProps = Some recordCall"
    by (rule example_props)+
  have i2: "2 < length exampleInvocations"
    by (simp add: example_nth)
  have b2: "renderedBlock sampleEngine exampleProps 2 ?block"
    using example_block [of 2] by (simp add: example_nth example_names)
  have s2: "state (exampleInvocations ! 2) = Result"
    and r2: "result (exampleInvocations ! 2) = Some ?r"
    by (simp_all add: example_nth exampleScreenshot_def)
  have sel: "imageResult ?r = Some ?img"
    by simp
  have so: "source ?img = Some ?s"
    and mt: "media_type ?s = Some (lit ''image/png'')"
    and dt: "data ?s = Some (lit ''AAAA'')"
    by simp_all
  have uri: "lit ''data:'' @ lit ''image/png'' @ lit '';base64,'' @ lit ''AAAA'' =
      lit ''data:image/png;base64,AAAA''"
    by (simp add: lit_append [symmetric])
  from image_data_uri [OF h i2 b2 s2 r2 sel so mt dt]
  obtain image where one: "images ?block = [image]"
    and shown: "src (attrs_of image) =
        Some (lit ''data:'' @ lit ''image/png'' @ lit '';base64,'' @ lit ''AAAA'')"
    and calls: "\<forall>f w. onImageClick exampleProps = Some f \<longrightarrow>
        click image w = f (lit ''data:'' @ lit ''image/png'' @ lit '';base64,'' @ lit ''AAAA'') w"
    by (elim exE conjE) (rule that; assumption)
  have shown': "src (attrs_of image) = Some (lit ''data:image/png;base64,AAAA'')"
    using shown unfolding uri .
  have clicked: "click image [] = [lit ''data:image/png;base64,AAAA'']"
    using calls [rule_format, OF cb, of "[]"] unfolding uri by (simp add: recordCall_def)
  have "\<exists>image. images ?block = [image] \<and>
      src (attrs_of image) = Some (lit ''data:image/png;base64,AAAA'') \<and>
      click image [] = [lit ''data:image/png;base64,AAAA'']"
    by (rule exI [of _ image]) (intro conjI one shown' clicked)
  then show ?thesis
    by (intro conjI h i2 b2 s2 r2 cb)
qed

text \<open>
  Claim C2. An image is shown only when the state is \<open>result\<close> and a result is present.
  The selected image result is then, for an array, its first element whose \<open>type\<close> is
  \<open>image\<close>, and for a single object that object when its \<open>type\<close> is \<open>image\<close>; the
  rendered block shows the image of the selected result (when it has a source).
  Otherwise (a string result, a result with no image element, no result) the block
  shows no image, while in state \<open>result\<close> the checkmark and the argument list are
  still there.
\<close>

theorem image_selection:
  assumes "toolInvocations props = Some ts" and "i < length ts"
    and "renderedBlock env props i block"
  shows "(images block \<noteq> [] \<longrightarrow>
            state (ts ! i) = Result \<and>
            (\<exists>r img s. result (ts ! i) = Some r \<and> imageResult r = Some img \<and>
               source img = Some s)) \<and>
         (\<forall>r. state (ts ! i) = Result \<and> result (ts ! i) = Some r \<longrightarrow>
            map (\<lambda>e. src (attrs_of e)) (images block) =
              (case imageResult r of
                 None \<Rightarrow> []
               | Some img \<Rightarrow>
                   (case source img of None \<Rightarrow> [] | Some s \<Rightarrow> [Some (imageSrc s)]))) \<and>
         (\<forall>items x. imageResult (ResultArray items) = Some x \<longleftrightarrow>
            (\<exists>k<length items. items ! k = x \<and> type x = lit ''image'' \<and>
               (\<forall>j<k. type (items ! j) \<noteq> lit ''image''))) \<and>
         (\<forall>items. imageResult (ResultArray items) = None \<longleftrightarrow>
            (\<forall>x\<in>set items. type x \<noteq> lit ''image'')) \<and>
         (\<forall>obj. imageResult (ResultObject obj) =
            (if type obj = lit ''image'' then Some obj else None)) \<and>
         (\<forall>str. imageResult (ResultString str) = None) \<and>
         (\<forall>str. result (ts ! i) = Some (ResultString str) \<longrightarrow> images block = []) \<and>
         (\<forall>r. result (ts ! i) = Some r \<and> imageResult r = None \<longrightarrow> images block = []) \<and>
         (result (ts ! i) = None \<longrightarrow> images block = []) \<and>
         (state (ts ! i) = Result \<longrightarrow>
            hasCheckmark block \<and>
            list_all2
              (\<lambda>(paramName, paramValue) row.
                 key (attrs_of row) = Some paramName \<and>
                 (\<exists>str. JS_String (numberToString env) paramValue = Inr str \<and>
                    texts row =
                      [capitalizeAndReplaceUnderscores (toUppercase env) paramName, str]))
              (entriesOf (args (ts ! i))) (parameterRows block))"
proof -
  let ?cb = "onImageClick props"
  let ?t = "ts ! i"
  from assms have name: "toolName ?t \<noteq> lit ''pause_execution''"
    and block: "renderInvocation env ?cb ?t = Inr block"
    by (simp_all add: renderedBlock_iff)
  note imgs = block_images_cases [OF name block]
  have only: "images block \<noteq> [] \<longrightarrow>
      state ?t = Result \<and>
      (\<exists>r img s. result ?t = Some r \<and> imageResult r = Some img \<and> source img = Some s)"
    unfolding imgs by (simp split: if_splits option.splits)
  have shown: "\<forall>r. state ?t = Result \<and> result ?t = Some r \<longrightarrow>
      map (\<lambda>e. src (attrs_of e)) (images block) =
        (case imageResult r of
           None \<Rightarrow> []
         | Some img \<Rightarrow> (case source img of None \<Rightarrow> [] | Some s \<Rightarrow> [Some (imageSrc s)]))"
    by (simp add: block_image_srcs [OF name block])
  have first: "\<forall>items x. imageResult (ResultArray items) = Some x \<longleftrightarrow>
      (\<exists>k<length items. items ! k = x \<and> type x = lit ''image'' \<and>
         (\<forall>j<k. type (items ! j) \<noteq> lit ''image''))"
    using imageResult_array_first by blast
  have none: "\<forall>items. imageResult (ResultArray items) = None \<longleftrightarrow>
      (\<forall>x\<in>set items. type x \<noteq> lit ''image'')"
    by (auto simp: find_None_iff)
  have single: "\<forall>obj. imageResult (ResultObject obj) =
      (if type obj = lit ''image'' then Some obj else None)"
    by simp
  have str: "\<forall>str. imageResult (ResultString str) = None"
    by simp
  have no1: "\<forall>str. result ?t = Some (ResultString str) \<longrightarrow> images block = []"
    unfolding imgs by auto
  have no2: "\<forall>r. result ?t = Some r \<and> imageResult r = None \<longrightarrow> images block = []"
    unfolding imgs by auto
  have no3: "result ?t = None \<longrightarrow> images block = []"
    unfolding imgs by auto
  have rest: "state ?t = Result \<longrightarrow>
      hasCheckmark block \<and>
      list_all2
        (\<lambda>(paramName, paramValue) row.
           key (attrs_of row) = Some paramName \<and>
           (\<exists>str. JS_String (numberToString env) paramValue = Inr str \<and>
              texts row = [capitalizeAndReplaceUnderscores (toUppercase env) paramName, str]))
        (entriesOf (args ?t)) (parameterRows block)"
    using block_rows_show [OF name block] by (simp add: block_hasCheckmark [OF name block])
  show ?thesis
    by (intro conjI only shown first none single str no1 no2 no3 rest)
qed

theorem image_selection_witness:
  "toolInvocations exampleProps = Some exampleInvocations \<and> 2 < length exampleInvocations \<and>
   renderedBlock sampleEngine exampleProps 2
     (invocationNode sampleEngine (Some recordCall) exampleScreenshot) \<and>
   state (exampleInvocations ! 2) = Result \<and>
   result (exampleInvocations ! 2) =
     Some (ResultArray
       [\<lparr>type = lit ''text'', source = None\<rparr>,
        \<lparr>type = lit ''image'',
         source = Some \<lparr>media_type = Some (lit ''image/png''), data = Some (lit ''AAAA'')\<rparr>\<rparr>]) \<and>
   map (\<lambda>e. src (attrs_of e))
     (images (invocationNode sampleEngine (Some recordCall) exampleScreenshot)) =
     [Some (lit ''data:image/png;base64,AAAA'')] \<and>
   hasCheckmark (invocationNode sampleEngine (Some recordCall) exampleScreenshot) \<and>
   parameterRows (invocationNode sampleEngine (Some recordCall) exampleScreenshot) = [] \<and>
   toolInvocations \<lparr>toolInvocations = Some [exampleDone], onImageClick = Some recordCall\<rparr> =
     Some [exampleDone] \<and>
   renderedBlock sampleEngine
     \<lparr>toolInvocations = Some [exampleDone], onImageClick = Some recordCall\<rparr> 0
     (invocationNode sampleEngine (Some recordCall) exampleDone) \<and>
   state ([exampleDone] ! 0) = Result \<and> result ([exampleDone] ! 0) = None \<and>
   images (invocationNode sampleEngine (Some recordCall) exampleDone) = [] \<and>
   hasCheckmark (invocationNode sampleEngine (Some recordCall) exampleDone) \<and>
   map texts (parameterRows (invocationNode sampleEngine (Some recordCall) exampleDone)) =
     [[lit ''X'', lit ''10'']]"
proof -
  let ?b2 = "invocationNode sampleEngine (Some recordCall) exampleScreenshot"
  let ?b0 = "invocationNode sampleEngine (Some recordCall) exampleDone"
  let ?img = "\<lparr>type = lit ''image'',
      source = Some \<lparr>media_type = Some (lit ''image/png''), data = Some (lit ''AAAA'')\<rparr>\<rparr>"
  let ?r = "ResultArray [\<lparr>type = lit ''text'', source = None\<rparr>, ?img]"
  let ?props = "\<lparr>toolInvocations = Some [exampleDone], onImageClick = Some recordCall\<rparr>"
  have h: "toolInvocations exampleProps = Some exampleInvocations"
    by (rule example_props)
  have i2: "2 < length exampleInvocations"
    by (simp add: example_nth)
  have b2: "renderedBlock sampleEngine exampleProps 2 ?b2"
    using example_block [of 2] by (simp add: example_nth example_names)
  have s2: "state (exampleInvocations ! 2) = Result"
    and r2: "result (exampleInvocations ! 2) = Some ?r"
    and a2: "entriesOf (args (exampleInvocations ! 2)) = []"
    by (simp_all add: example_nth exampleScreenshot_def)
  have h': "toolInvocations ?props = Some [exampleDone]"
    and i0: "0 < length [exampleDone]"
    by simp_all
  have b0: "renderedBlock sampleEngine ?props 0 ?b0"
    by (rule single_block) (simp_all add: example_names example_convert)
  have s0: "state ([exampleDone] ! 0) = Result"
    and r0: "result ([exampleDone] ! 0) = None"
    and a0: "entriesOf (args ([exampleDone] ! 0)) = [(lit ''x'', JNum (lit ''10''))]"
    by (simp_all add: exampleDone_def)
  have sel: "(case imageResult ?r of
       None \<Rightarrow> []
     | Some img \<Rightarrow> (case source img of None \<Rightarrow> [] | Some s \<Rightarrow> [Some (imageSrc s)])) =
     [Some (lit ''data:image/png;base64,AAAA'')]"
    by (simp add: imageSrc_def lit_append [symmetric])
  note at2 = image_selection [OF h i2 b2]
  have srcs: "map (\<lambda>e. src (attrs_of e)) (images ?b2) =
      [Some (lit ''data:image/png;base64,AAAA'')]"
    using at2 [THEN conjunct2, THEN conjunct1, rule_format, of ?r] s2 r2 sel by simp
  have rest2: "hasCheckmark ?b2 \<and> parameterRows ?b2 = []"
    using at2 [THEN conjunct2, THEN conjunct2, THEN conjunct2, THEN conjunct2, THEN conjunct2,
        THEN conjunct2, THEN conjunct2, THEN conjunct2, THEN conjunct2] s2
    unfolding a2 by simp
  note at0 = image_selection [OF h' i0 b0]
  have none: "images ?b0 = []"
    using at0 [THEN conjunct2, THEN conjunct2, THEN conjunct2, THEN conjunct2, THEN conjunct2,
        THEN conjunct2, THEN conjunct2, THEN conjunct2, THEN conjunct1] r0
    by simp
  have rest0: "hasCheckmark ?b0 \<and> map texts (parameterRows ?b0) = [[lit ''X'', lit ''10'']]"
    using at0 [THEN conjunct2, THEN conjunct2, THEN conjunct2, THEN conjunct2, THEN conjunct2,
        THEN conjunct2, THEN conjunct2, THEN conjunct2, THEN conjunct2] s0
    unfolding a0
    by (auto simp: list_all2_Cons1 sample_eval sampleEngine_def printNumber_def)
  show ?thesis
    by (intro conjI h i2 b2 s2 r2 srcs rest2 [THEN conjunct1] rest2 [THEN conjunct2]
        h' b0 s0 r0 none rest0 [THEN conjunct1] rest0 [THEN conjunct2])
qed

text \<open>
  Claim C10. When the selected image result has a source, the image is rendered whether
  or not the fields of the source are present: an absent \<open>media_type\<close> or \<open>data\<close> is
  printed in the \<open>src\<close> as the text \<open>undefined\<close>, so that a source with neither field
  gives \<open>data:undefined;base64,undefined\<close>. Only the presence of the source decides:
  without a source no image is rendered.
\<close>

theorem absent_source_fields_print_undefined:
  assumes "toolInvocations props = Some ts" and "i < length ts"
    and "renderedBlock env props i block"
    and "state (ts ! i) = Result" and "result (ts ! i) = Some r"
    and "imageResult r = Some img"
  shows "(\<forall>s. source img = Some s \<longrightarrow>
            map (\<lambda>e. src (attrs_of e)) (images block) =
              [Some (lit ''data:'' @
                     (case media_type s of None \<Rightarrow> lit ''undefined'' | Some m \<Rightarrow> m) @
                     lit '';base64,'' @
                     (case data s of None \<Rightarrow> lit ''undefined'' | Some d \<Rightarrow> d))]) \<and>
         (\<forall>s. source img = Some s \<and> media_type s = None \<and> data s = None \<longrightarrow>
            map (\<lambda>e. src (attrs_of e)) (images block) =
              [Some (lit ''data:undefined;base64,undefined'')]) \<and>
         (source img = None \<longrightarrow> images block = [])"
proof -
  let ?cb = "onImageClick props"
  from assms(1-3) have name: "toolName (ts ! i) \<noteq> lit ''pause_execution''"
    and block: "renderInvocation env ?cb (ts ! i) = Inr block"
    by (simp_all add: renderedBlock_iff)
  have srcs: "map (\<lambda>e. src (attrs_of e)) (images block) =
      (case source img of None \<Rightarrow> [] | Some s \<Rightarrow> [Some (imageSrc s)])"
    using assms(6) by (simp add: block_image_srcs [OF name block assms(4,5)])
  have general: "\<forall>s. source img = Some s \<longrightarrow>
      map (\<lambda>e. src (attrs_of e)) (images block) =
        [Some (lit ''data:'' @
               (case media_type s of None \<Rightarrow> lit ''undefined'' | Some m \<Rightarrow> m) @
               lit '';base64,'' @
               (case data s of None \<Rightarrow> lit ''undefined'' | Some d \<Rightarrow> d))]"
    by (simp add: srcs imageSrc_def split: option.splits)
  have both: "\<forall>s. source img = Some s \<and> media_type s = None \<and> data s = None \<longrightarrow>
      map (\<lambda>e. src (attrs_of e)) (images block) =
        [Some (lit ''data:undefined;base64,undefined'')]"
    by (simp add: srcs imageSrc_def lit_append [symmetric])
  have gate: "source img = None \<longrightarrow> images block = []"
    using assms(4-6) by (simp add: block_images_cases [OF name block])
  show ?thesis
    by (intro conjI general both gate)
qed

theorem absent_source_fields_print_undefined_witness:
  "toolInvocations exampleProps = Some exampleInvocations \<and> 4 < length exampleInvocations \<and>
   renderedBlock sampleEngine exampleProps 4
     (invocationNode sampleEngine (Some recordCall) exampleBare) \<and>
   state (exampleInvocations ! 4) = Result \<and>
   result (exampleInvocations ! 4) =
     Some (ResultObject
       \<lparr>type = lit ''image'', source = Some \<lparr>media_type = None, data = None\<rparr>\<rparr>) \<and>
   imageResult (ResultObject
       \<lparr>type = lit ''image'', source = Some \<lparr>media_type = None, data = None\<rparr>\<rparr>) =
     Some \<lparr>type = lit ''image'', source = Some \<lparr>media_type = None, data = None\<rparr>\<rparr> \<and>
   map (\<lambda>e. src (attrs_of e))
     (images (invocationNode sampleEngine (Some recordCall) exampleBare)) =
     [Some (lit ''data:undefined;base64,undefined'')]"
proof -
  let ?block = "invocationNode sampleEngine (Some recordCall) exampleBare"
  let ?s = "\<lparr>media_type = None, data = None\<rparr>"
  let ?img = "\<lparr>type = lit ''image'', source = Some ?s\<rparr>"
  have h: "toolInvocations exampleProps = Some exampleInvocations"
    by (rule example_props)
  have i4: "4 < length exampleInvocations"
    by (simp add: example_nth)
  have b4: "renderedBlock sampleEngine exampleProps 4 ?block"
    using example_block [of 4] by (simp add: example_nth example_names)
  have s4: "state (exampleInvocations ! 4) = Result"
    and r4: "result (exampleInvocations ! 4) = Some (ResultObject ?img)"
    by (simp_all add: example_nth exampleBare_def)
  have sel: "imageResult (ResultObject ?img) = Some ?img"
    by simp
  have so: "source ?img = Some ?s \<and> media_type ?s = None \<and> data ?s = None"
    by simp
  have srcs: "map (\<lambda>e. src (attrs_of e)) (images ?block) =
      [Some (lit ''data:undefined;base64,undefined'')]"
    using absent_source_fields_print_undefined [OF h i4 b4 s4 r4 sel,
        THEN conjunct2, THEN conjunct1, rule_format, OF so] .
  show ?thesis
    by (intro conjI h i4 b4 s4 r4 sel srcs)
qed

end
